theory Spec2Isabelle
  imports Main
begin

section \<open>Python and Ray runtime\<close>

text \<open>
  The module \<^verbatim>\<open>ray_lightning/ray_ddp.py\<close> drives a pool of Ray actors. Exceptions are
  values of \<open>py_error\<close>; a call that can raise returns \<open>py_error + 'a\<close> with \<open>Inl\<close> the
  exception.
\<close>

datatype py_error =
  IndexError | KeyError | TypeError | AttributeError | AssertionError
  | RayActorError | RayTaskError

text \<open>\<^verbatim>\<open>os.environ\<close>: a dictionary from names to strings.\<close>

type_synonym environment = "string \<rightharpoonup> string"

text \<open>
  One \<^verbatim>\<open>RayExecutor\<close> actor. The actor lives in a process of its own on some node; what
  the methods of the class read from that process is a field here: the address
  \<^verbatim>\<open>ray.util.get_node_ip_address()\<close> reports there, the port the operating system of that
  node hands to a socket bound to port 0, and the process environment. \<open>alive\<close> is false
  once the actor is dead (killed, or its node lost): Ray then fails every call on it
  with \<^verbatim>\<open>RayActorError\<close>, raised by \<^verbatim>\<open>ray.get\<close>.
\<close>

record worker =
  node_ip :: string
  free_port :: nat
  os_environ :: environment
  alive :: bool

text \<open>
  \<^verbatim>\<open>ray.get(futures)\<close> on a list: the values in the order of the list, or the first
  failure in that order.
\<close>

fun ray_get :: "(py_error + 'a) list \<Rightarrow> py_error + 'a list" where
  "ray_get [] = Inr []"
| "ray_get (f # fs) =
     (case f of
        Inl e \<Rightarrow> Inl e
      | Inr v \<Rightarrow> (case ray_get fs of Inl e \<Rightarrow> Inl e | Inr vs \<Rightarrow> Inr (v # vs)))"

text \<open>
  \<^verbatim>\<open>w.method.remote(...)\<close>: the future of a method call on the actor \<open>w\<close>. The method
  runs in the actor's process, so it is a function of the actor's state.
\<close>

definition remote :: "worker \<Rightarrow> (worker \<Rightarrow> py_error + 'a) \<Rightarrow> py_error + 'a" where
  "remote w method = (if alive w then method w else Inl RayActorError)"

text \<open>\<^verbatim>\<open>ray.kill(w, no_restart=True)\<close>.\<close>

definition ray_kill :: "worker \<Rightarrow> worker" where
  "ray_kill w = w\<lparr>alive := False\<rparr>"

section \<open>RayExecutor\<close>

text \<open>
  \<^verbatim>\<open>
  def set_env_var(self, key: str, value: str):
      if value is not None:
          value = str(value)
          os.environ[key] = value
  \<close>
  The values passed are results of \<^verbatim>\<open>os.getenv\<close>: a string or \<^verbatim>\<open>None\<close>.
\<close>

definition set_env_var :: "string \<Rightarrow> string option \<Rightarrow> worker \<Rightarrow> worker" where
  "set_env_var key value w =
     (case value of
        None \<Rightarrow> w
      | Some v \<Rightarrow> w\<lparr>os_environ := (os_environ w)(key \<mapsto> v)\<rparr>)"

text \<open>
  \<^verbatim>\<open>
  def set_env_vars(self, keys: List[str], values: List[str]):
      assert len(keys) == len(values)
      for key, value in zip(keys, values):
          self.set_env_var(key, value)
  \<close>
\<close>

fun set_env_vars_loop :: "(string \<times> string option) list \<Rightarrow> worker \<Rightarrow> worker" where
  "set_env_vars_loop [] w = w"
| "set_env_vars_loop ((key, value) # kvs) w = set_env_vars_loop kvs (set_env_var key value w)"

definition set_env_vars :: "string list \<Rightarrow> string option list \<Rightarrow> worker \<Rightarrow> py_error + worker" where
  "set_env_vars keys values w =
     (if length keys = length values then Inr (set_env_vars_loop (zip keys values) w)
      else Inl AssertionError)"

text \<open>\<^verbatim>\<open>def get_node_ip(self): return ray.util.get_node_ip_address()\<close>\<close>

definition get_node_ip :: "worker \<Rightarrow> py_error + string" where
  "get_node_ip w = Inr (node_ip w)"

text \<open>\<^verbatim>\<open>def execute(self, fn, *args, **kwargs): return fn(*args, **kwargs)\<close>\<close>

definition execute :: "(worker \<Rightarrow> py_error + 'a) \<Rightarrow> worker \<Rightarrow> py_error + 'a" where
  "execute fn w = fn w"

section \<open>Rank resolution\<close>

text \<open>
  \<^verbatim>\<open>
  node_ip_map = {}
  for i in range(len(node_ips)):
      node_ip_map[node_ips[i]] = i
  \<close>
\<close>

function node_ip_map_loop :: "string list \<Rightarrow> nat \<Rightarrow> (string \<rightharpoonup> nat) \<Rightarrow> (string \<rightharpoonup> nat)" where
  "node_ip_map_loop node_ips i node_ip_map =
     (if i < length node_ips
      then node_ip_map_loop node_ips (Suc i) (node_ip_map(node_ips ! i \<mapsto> i))
      else node_ip_map)"
  by pat_completeness auto
termination
  by (relation "measure (\<lambda>(node_ips, i, node_ip_map). length node_ips - i)") auto

declare node_ip_map_loop.simps [simp del]

text \<open>
  \<^verbatim>\<open>
  rank_counter_dict = defaultdict(int)
  global_to_local = [None] * self.num_workers
  for global_rank in range(self.num_workers):
      ip = node_ips[global_rank]
      global_to_local[global_rank] = (rank_counter_dict[ip], node_ip_map[ip])
      rank_counter_dict[ip] += 1
  return global_to_local
  \<close>
  \<^verbatim>\<open>defaultdict(int)\<close> is a total function with default 0. \<^verbatim>\<open>node_ips[global_rank]\<close>
  raises \<^verbatim>\<open>IndexError\<close> past the end of the list and \<^verbatim>\<open>node_ip_map[ip]\<close> raises
  \<^verbatim>\<open>KeyError\<close> on a missing key.
\<close>

function global_to_local_loop ::
  "nat \<Rightarrow> string list \<Rightarrow> (string \<rightharpoonup> nat) \<Rightarrow> nat \<Rightarrow> (string \<Rightarrow> nat)
     \<Rightarrow> (nat \<times> nat) option list \<Rightarrow> py_error + (nat \<times> nat) option list" where
  "global_to_local_loop num_workers node_ips node_ip_map global_rank rank_counter_dict
       global_to_local =
     (if global_rank < num_workers then
        (if global_rank < length node_ips then
           (let ip = node_ips ! global_rank in
            case node_ip_map ip of
              None \<Rightarrow> Inl KeyError
            | Some node_rank \<Rightarrow>
                global_to_local_loop num_workers node_ips node_ip_map (Suc global_rank)
                  (rank_counter_dict(ip := rank_counter_dict ip + 1))
                  (global_to_local[global_rank := Some (rank_counter_dict ip, node_rank)]))
         else Inl IndexError)
      else Inr global_to_local)"
  by pat_completeness auto
termination
  by (relation "measure (\<lambda>(num_workers, node_ips, node_ip_map, global_rank, rest).
        num_workers - global_rank)") auto

declare global_to_local_loop.simps [simp del]

text \<open>
  The body of \<^verbatim>\<open>get_local_ranks\<close> after the addresses have arrived: \<open>num_workers\<close> is
  \<^verbatim>\<open>self.num_workers\<close>, \<open>node_ips\<close> the addresses of \<^verbatim>\<open>self.workers\<close> in order. A count
  is a \<open>nat\<close>: for a count below 1, \<^verbatim>\<open>range\<close> and \<^verbatim>\<open>[None] * n\<close> are both empty.
\<close>

definition rank_assignment :: "nat \<Rightarrow> string list \<Rightarrow> py_error + (nat \<times> nat) option list" where
  "rank_assignment num_workers node_ips =
     (let node_ip_map = node_ip_map_loop node_ips 0 Map.empty
      in global_to_local_loop num_workers node_ips node_ip_map 0 (\<lambda>ip. 0)
           (replicate num_workers None))"

section \<open>RayPlugin\<close>

text \<open>
  What a worker computes is opaque to the plugin: \<open>'r\<close> is the type of the value
  \<^verbatim>\<open>trainer.run_stage()\<close> returns, \<open>'s\<close> of a model's \<^verbatim>\<open>state_dict()\<close>, \<open>'b\<close> of the byte
  stream \<^verbatim>\<open>to_state_stream\<close> makes of it and \<open>'v\<close> of the numbers held by a metric, which
  is a \<^verbatim>\<open>torch.Tensor\<close> or a \<^verbatim>\<open>numpy.ndarray\<close>.
\<close>

datatype 'v metric = Tensor 'v | NdArray 'v

datatype trainer_fn = FITTING | VALIDATING | TESTING | PREDICTING | TUNING

text \<open>
  The trainer, as far as the plugin reads and writes it. \<open>checkpoint_callback\<close> is
  \<open>None\<close> when the trainer has no checkpoint callback and otherwise holds the callback's
  \<^verbatim>\<open>best_model_path\<close>; \<open>optimizers\<close> are references to optimizer objects; \<open>state_fn\<close>
  is \<^verbatim>\<open>trainer.state.fn\<close>.
\<close>

record 'v trainer =
  checkpoint_callback :: "string option option"
  callback_metrics :: "string \<rightharpoonup> 'v metric"
  optimizers :: "nat list"
  state_fn :: trainer_fn

text \<open>The \<^verbatim>\<open>LightningModule\<close>: its weights and the trainer it is attached to.\<close>

record ('s, 'v) lightning_module =
  state_dict :: 's
  trainer :: "'v trainer"

text \<open>
  The tuple a worker returns:
  \<^verbatim>\<open>results, best_model_path, model_state_stream, callback_metrics\<close>.
\<close>

type_synonym ('r, 'b, 'v) envelope = "'r \<times> string option \<times> 'b \<times> (string \<rightharpoonup> 'v metric)"

text \<open>
  The attributes of a \<^verbatim>\<open>RayPlugin\<close> that the methods below use; \<open>self_x\<close> is
  \<^verbatim>\<open>self.x\<close>, or \<^verbatim>\<open>self._x\<close> for \<open>is_remote\<close>, \<open>local_rank\<close>, \<open>global_rank\<close>, \<open>node_rank\<close>,
  \<open>model\<close> and \<open>results\<close>. \<open>self_global_to_local\<close> is \<open>None\<close> until \<^verbatim>\<open>execution_loop\<close>
  sets the attribute. The list \<open>self_workers\<close> holds the actors themselves: every handle
  in it is to an actor of its own, created by \<^verbatim>\<open>_create_worker\<close>.
\<close>

record ('r, 's, 'v) plugin =
  self_is_remote :: bool
  self_num_workers :: nat
  self_use_gpu :: bool
  self_workers :: "worker list"
  self_local_rank :: nat
  self_global_rank :: int
  self_node_rank :: nat
  self_global_to_local :: "(nat \<times> nat) option list option"
  self_model :: "('s, 'v) lightning_module option"
  self_results :: "'r option"

subsection \<open>Construction and setup\<close>

text \<open>
  \<^verbatim>\<open>
  def __init__(self, num_workers=1, num_cpus_per_worker=1, use_gpu=False,
               init_hook=None, **ddp_kwargs):
      ...
      self._is_remote = False
      ...
      self.num_workers = num_workers
      ...
      self.use_gpu = use_gpu
      self.workers = []
      ...
      self._local_rank = 0
      self._global_rank = 0
      self._node_rank = 0
      super().__init__(parallel_devices=[], cluster_environment=None, **ddp_kwargs)
  \<close>
  The base class starts with no model and no results. The attributes left out
  (\<^verbatim>\<open>nickname\<close>, \<^verbatim>\<open>num_cpus_per_worker\<close>, \<^verbatim>\<open>init_hook\<close>) are read by no method below but
  \<^verbatim>\<open>setup\<close>, which takes the hook as a parameter.
\<close>

definition init :: "nat \<Rightarrow> bool \<Rightarrow> ('r, 's, 'v) plugin" where
  "init n gpu =
     \<lparr>self_is_remote = False, self_num_workers = n, self_use_gpu = gpu, self_workers = [],
      self_local_rank = 0, self_global_rank = 0, self_node_rank = 0,
      self_global_to_local = None, self_model = None, self_results = None\<rparr>"

text \<open>
  \<^verbatim>\<open>
  def setup(self):
      self.workers = [self._create_worker() for _ in range(self.num_workers)]
      if self.init_hook:
          ray.get([w.execute.remote(self.init_hook) for w in self.workers])
  \<close>
  The name \<open>setup\<close> is a keyword of Isabelle, so the method is \<open>setup_workers\<close> here.
  Where Ray places the actors is its own choice: \<open>create_worker i\<close> is the actor that the
  call number \<open>i\<close> of \<^verbatim>\<open>_create_worker\<close> gets. \<open>init_hook\<close> is \<^verbatim>\<open>self.init_hook\<close>, as a
  function of the process it runs in.
\<close>

definition setup_workers ::
  "(nat \<Rightarrow> worker) \<Rightarrow> (worker \<Rightarrow> py_error + worker) option \<Rightarrow> ('r, 's, 'v) plugin
     \<Rightarrow> py_error + ('r, 's, 'v) plugin" where
  "setup_workers create_worker init_hook p =
     (let p1 = p\<lparr>self_workers := map create_worker [0..<self_num_workers p]\<rparr>
      in case init_hook of
           None \<Rightarrow> Inr p1
         | Some hook \<Rightarrow>
             (case ray_get (map (\<lambda>w. remote w (execute hook)) (self_workers p1)) of
                Inl e \<Rightarrow> Inl e
              | Inr ws \<Rightarrow> Inr (p1\<lparr>self_workers := ws\<rparr>)))"

subsection \<open>Serialization\<close>

text \<open>
  \<^verbatim>\<open>__getstate__\<close> and \<^verbatim>\<open>__setstate__\<close> work on \<^verbatim>\<open>self.__dict__\<close>, the dictionary of all
  attributes of the object, those of the record above and any other (the base class has
  its own). Its values are Python objects.
\<close>

datatype py_value =
  PyNone | PyBool bool | PyInt int | PyStr string | PyList "py_value list" | PyRef nat

type_synonym py_dict = "string \<rightharpoonup> py_value"

text \<open>
  \<^verbatim>\<open>
  def __getstate__(self):
      d = self.__dict__.copy()
      # Don't serialize the workers.
      del d["workers"]
      return d
  \<close>
  \<^verbatim>\<open>del\<close> raises \<^verbatim>\<open>KeyError\<close> when the key is missing.
\<close>

definition getstate :: "py_dict \<Rightarrow> py_error + py_dict" where
  "getstate self_dict =
     (let d = self_dict
      in if d ''workers'' = None then Inl KeyError else Inr (d(''workers'' := None)))"

text \<open>
  \<^verbatim>\<open>
  def __setstate__(self, d):
      d["workers"] = []
      self.__dict__.update(d)
  \<close>
  The first argument is the \<^verbatim>\<open>__dict__\<close> of the object that receives the state, the
  result its \<^verbatim>\<open>__dict__\<close> afterwards.
\<close>

definition setstate :: "py_dict \<Rightarrow> py_dict \<Rightarrow> py_dict" where
  "setstate self_dict d = self_dict ++ d(''workers'' \<mapsto> PyList [])"

text \<open>
  Pickling calls \<^verbatim>\<open>__getstate__\<close>; unpickling makes an object of the class without
  running \<^verbatim>\<open>__init__\<close>, so with an empty \<^verbatim>\<open>__dict__\<close>, and calls \<^verbatim>\<open>__setstate__\<close> on it.
\<close>

definition pickle_roundtrip :: "py_dict \<Rightarrow> py_error + py_dict" where
  "pickle_roundtrip self_dict =
     (case getstate self_dict of Inl e \<Rightarrow> Inl e | Inr d \<Rightarrow> Inr (setstate Map.empty d))"

subsection \<open>Rendezvous\<close>

text \<open>
  \<^verbatim>\<open>
  def find_free_port():
      with closing(socket.socket(socket.AF_INET, socket.SOCK_STREAM)) as s:
          s.bind(("", 0))
          s.setsockopt(socket.SOL_SOCKET, socket.SO_REUSEADDR, 1)
          return s.getsockname()[1]
  \<close>
  The socket is bound and closed in the process that runs the function; the argument is
  that process.
\<close>

definition find_free_port :: "worker \<Rightarrow> py_error + nat" where
  "find_free_port w = Inr (free_port w)"

text \<open>\<^verbatim>\<open>str(n)\<close> for a port number: its decimal digits.\<close>

fun str_nat :: "nat \<Rightarrow> string" where
  "str_nat n =
     (if n < 10 then [''0123456789'' ! n]
      else str_nat (n div 10) @ [''0123456789'' ! (n mod 10)])"

declare str_nat.simps [simp del]

definition env_keys :: "string list" where
  "env_keys = [''PL_GLOBAL_SEED'', ''PL_TORCH_DISTRIBUTED_BACKEND'', ''MASTER_ADDR'',
     ''MASTER_PORT'']"

text \<open>
  \<^verbatim>\<open>
  def _setup_env_vars(self):
      os.environ["MASTER_ADDR"] = ray.get(self.workers[0].get_node_ip.remote())
      os.environ["MASTER_PORT"] = str(
          ray.get(self.workers[0].execute.remote(find_free_port)))
      keys = ["PL_GLOBAL_SEED", "PL_TORCH_DISTRIBUTED_BACKEND", "MASTER_ADDR",
              "MASTER_PORT"]
      values = [os.getenv(k) for k in keys]
      ray.get([w.set_env_vars.remote(keys, values) for w in self.workers])
  \<close>
  \<open>driver_environ\<close> is \<^verbatim>\<open>os.environ\<close> of the driver process; the result holds it and the
  plugin after the call.
\<close>

definition setup_env_vars ::
  "environment \<Rightarrow> ('r, 's, 'v) plugin \<Rightarrow> py_error + (environment \<times> ('r, 's, 'v) plugin)" where
  "setup_env_vars driver_environ p =
     (case self_workers p of
        [] \<Rightarrow> Inl IndexError
      | w0 # _ \<Rightarrow>
          (case remote w0 get_node_ip of
             Inl e \<Rightarrow> Inl e
           | Inr addr \<Rightarrow>
               (case remote w0 (execute find_free_port) of
                  Inl e \<Rightarrow> Inl e
                | Inr port \<Rightarrow>
                    (let environ1 = driver_environ(''MASTER_ADDR'' \<mapsto> addr);
                         environ2 = environ1(''MASTER_PORT'' \<mapsto> str_nat port);
                         keys = env_keys;
                         values = map environ2 keys
                     in case ray_get (map (\<lambda>w. remote w (set_env_vars keys values))
                                       (self_workers p)) of
                          Inl e \<Rightarrow> Inl e
                        | Inr ws \<Rightarrow> Inr (environ2, p\<lparr>self_workers := ws\<rparr>)))))"

subsection \<open>Rank resolution on the pool\<close>

text \<open>
  \<^verbatim>\<open>
  def get_local_ranks(self):
      node_ips = ray.get([w.get_node_ip.remote() for w in self.workers])
      ...
  \<close>
\<close>

definition get_local_ranks :: "('r, 's, 'v) plugin \<Rightarrow> py_error + (nat \<times> nat) option list" where
  "get_local_ranks p =
     (case ray_get (map (\<lambda>w. remote w get_node_ip) (self_workers p)) of
        Inl e \<Rightarrow> Inl e
      | Inr node_ips \<Rightarrow> rank_assignment (self_num_workers p) node_ips)"

subsection \<open>Execution on the driver\<close>

text \<open>
  \<^verbatim>\<open>apply_to_collection(d, dtype, f)\<close> on a dictionary of metrics: \<open>f\<close> on the values of
  the type, the others as they are. The two uses convert between tensors and arrays:
  \<^verbatim>\<open>lambda x: x.cpu().numpy()\<close> on \<^verbatim>\<open>torch.Tensor\<close> and
  \<^verbatim>\<open>lambda x: torch.tensor(x)\<close> on \<^verbatim>\<open>np.ndarray\<close>.
\<close>

definition apply_to_collection ::
  "(string \<rightharpoonup> 'v metric) \<Rightarrow> ('v metric \<Rightarrow> bool) \<Rightarrow> ('v metric \<Rightarrow> 'v metric)
     \<Rightarrow> (string \<rightharpoonup> 'v metric)" where
  "apply_to_collection d is_dtype f =
     (\<lambda>k. case d k of None \<Rightarrow> None | Some x \<Rightarrow> Some (if is_dtype x then f x else x))"

fun is_tensor :: "'v metric \<Rightarrow> bool" where
  "is_tensor (Tensor x) = True"
| "is_tensor (NdArray x) = False"

fun is_ndarray :: "'v metric \<Rightarrow> bool" where
  "is_ndarray (Tensor x) = False"
| "is_ndarray (NdArray x) = True"

fun to_numpy :: "'v metric \<Rightarrow> 'v metric" where
  "to_numpy (Tensor x) = NdArray x"
| "to_numpy (NdArray x) = NdArray x"

fun to_tensor :: "'v metric \<Rightarrow> 'v metric" where
  "to_tensor (Tensor x) = Tensor x"
| "to_tensor (NdArray x) = Tensor x"

text \<open>
  The part of \<^verbatim>\<open>execution_loop\<close> between the comments
  \<^verbatim>\<open>DDPSpawn.__recover_child_process_weights begin\<close> and \<^verbatim>\<open>..._end\<close>:
  \<^verbatim>\<open>
  results, best_path, state_stream, callback_metrics = results[0]
  state_dict = load_state_stream(state_stream, to_gpu=self.use_gpu)
  self._results = results
  self._model = model
  self._model.load_state_dict(state_dict)
  if self.lightning_module.trainer.checkpoint_callback:
      self.lightning_module.trainer.checkpoint_callback.best_model_path = best_path
  self.lightning_module.trainer.callback_metrics.update(
      apply_to_collection(callback_metrics, np.ndarray, lambda x: torch.tensor(x)))
  \<close>
  \<open>worker_returns\<close> is the list \<^verbatim>\<open>process_results\<close> returned, one entry for each worker
  in the order of the global ranks, \<open>None\<close> for a worker that returned \<^verbatim>\<open>None\<close>.
  \<^verbatim>\<open>results[0]\<close> raises \<^verbatim>\<open>IndexError\<close> on the empty list, unpacking \<^verbatim>\<open>None\<close> into four
  names raises \<^verbatim>\<open>TypeError\<close>, and \<^verbatim>\<open>None.load_state_dict\<close> raises \<^verbatim>\<open>AttributeError\<close>.
  \<^verbatim>\<open>load_state_stream\<close> is a function of \<^verbatim>\<open>ray_lightning.util\<close>, a parameter here.
\<close>

definition recover_child_process_weights ::
  "('b \<Rightarrow> bool \<Rightarrow> 's) \<Rightarrow> ('r, 'b, 'v) envelope option list \<Rightarrow> ('s, 'v) lightning_module option
     \<Rightarrow> ('r, 's, 'v) plugin \<Rightarrow> py_error + ('r, 's, 'v) plugin" where
  "recover_child_process_weights load_state_stream worker_returns lmodule p =
     (case worker_returns of
        [] \<Rightarrow> Inl IndexError
      | first # _ \<Rightarrow>
          (case first of
             None \<Rightarrow> Inl TypeError
           | Some (rs, best_path, state_stream, metrics) \<Rightarrow>
               (let sd = load_state_stream state_stream (self_use_gpu p);
                    p1 = p\<lparr>self_results := Some rs\<rparr>;
                    p2 = p1\<lparr>self_model := lmodule\<rparr>
                in case self_model p2 of
                     None \<Rightarrow> Inl AttributeError
                   | Some m \<Rightarrow>
                       (let m1 = m\<lparr>state_dict := sd\<rparr>;
                            t = trainer m1;
                            t1 = (case checkpoint_callback t of
                                    None \<Rightarrow> t
                                  | Some _ \<Rightarrow> t\<lparr>checkpoint_callback := Some best_path\<rparr>);
                            t2 = t1\<lparr>callback_metrics := callback_metrics t1 ++
                                   apply_to_collection metrics is_ndarray to_tensor\<rparr>
                        in Inr (p2\<lparr>self_model := Some (m1\<lparr>trainer := t2\<rparr>)\<rparr>)))))"

text \<open>
  \<^verbatim>\<open>
  def execution_loop(self, tune_enabled: bool = True):
      self._setup_env_vars()
      self.global_to_local = self.get_local_ranks()
      model = self._model
      model_ref = ray.put(model)
      self._model = None
      queue = None
      if tune_enabled and TUNE_INSTALLED and is_session_enabled():
          queue = Queue(actor_options={"num_cpus": 0})
      futures = [
          self.workers[i].execute.remote(self.execute_remote, model_ref, i, queue)
          for i in range(self.num_workers)
      ]
      results = process_results(futures, queue)
      ... (the part above)
      if queue:
          queue.shutdown()
  \<close>
  The function has no \<^verbatim>\<open>return\<close> statement: a call that does not raise evaluates to
  \<^verbatim>\<open>None\<close>, the first component of the result here.

  \<^verbatim>\<open>process_results\<close> is a function of \<^verbatim>\<open>ray_lightning.util\<close>: it waits for the futures
  and gives their values, or raises. What it gives in this run is the parameter
  \<open>process_results\<close>. The queue is only handed to the workers and to
  \<^verbatim>\<open>process_results\<close>, so \<open>tune_enabled\<close> changes nothing else. \<^verbatim>\<open>self.workers[i]\<close> raises
  \<^verbatim>\<open>IndexError\<close> when there are fewer workers than \<^verbatim>\<open>num_workers\<close>.
\<close>

definition execution_loop ::
  "('b \<Rightarrow> bool \<Rightarrow> 's) \<Rightarrow> (py_error + ('r, 'b, 'v) envelope option list) \<Rightarrow> bool \<Rightarrow> environment
     \<Rightarrow> ('r, 's, 'v) plugin \<Rightarrow> py_error + ('r option \<times> environment \<times> ('r, 's, 'v) plugin)" where
  "execution_loop load_state_stream process_results tune_enabled driver_environ p =
     (case setup_env_vars driver_environ p of
        Inl e \<Rightarrow> Inl e
      | Inr (driver_environ1, p1) \<Rightarrow>
          (case get_local_ranks p1 of
             Inl e \<Rightarrow> Inl e
           | Inr ranks \<Rightarrow>
               (let p2 = p1\<lparr>self_global_to_local := Some ranks\<rparr>;
                    lmodule = self_model p2;
                    p3 = p2\<lparr>self_model := None\<rparr>
                in if length (self_workers p3) < self_num_workers p3 then Inl IndexError
                   else
                     (case process_results of
                        Inl e \<Rightarrow> Inl e
                      | Inr worker_returns \<Rightarrow>
                          (case recover_child_process_weights load_state_stream
                                  worker_returns lmodule p3 of
                             Inl e \<Rightarrow> Inl e
                           | Inr p4 \<Rightarrow> Inr (None, driver_environ1, p4))))))"

text \<open>
  \<^verbatim>\<open>
  def start_training(self, trainer):
      results = self.execution_loop(tune_enabled=True)
      trainer.optimizers = []
      return results

  def start_evaluating(self, trainer):
      results = self.execution_loop(tune_enabled=False)
      return results

  def start_predicting(self, trainer):
      results = self.execution_loop(tune_enabled=False)
      return results
  \<close>
  The \<^verbatim>\<open>trainer\<close> passed in is the trainer the plugin's model is attached to.
\<close>

definition reset_optimizers :: "('r, 's, 'v) plugin \<Rightarrow> ('r, 's, 'v) plugin" where
  "reset_optimizers p =
     (case self_model p of
        None \<Rightarrow> p
      | Some m \<Rightarrow> p\<lparr>self_model := Some (m\<lparr>trainer := (trainer m)\<lparr>optimizers := []\<rparr>\<rparr>)\<rparr>)"

definition start_training ::
  "('b \<Rightarrow> bool \<Rightarrow> 's) \<Rightarrow> (py_error + ('r, 'b, 'v) envelope option list) \<Rightarrow> environment
     \<Rightarrow> ('r, 's, 'v) plugin \<Rightarrow> py_error + ('r option \<times> environment \<times> ('r, 's, 'v) plugin)" where
  "start_training load_state_stream process_results driver_environ p =
     (case execution_loop load_state_stream process_results True driver_environ p of
        Inl e \<Rightarrow> Inl e
      | Inr (rs, driver_environ1, p1) \<Rightarrow> Inr (rs, driver_environ1, reset_optimizers p1))"

definition start_evaluating ::
  "('b \<Rightarrow> bool \<Rightarrow> 's) \<Rightarrow> (py_error + ('r, 'b, 'v) envelope option list) \<Rightarrow> environment
     \<Rightarrow> ('r, 's, 'v) plugin \<Rightarrow> py_error + ('r option \<times> environment \<times> ('r, 's, 'v) plugin)" where
  "start_evaluating load_state_stream process_results driver_environ p =
     (case execution_loop load_state_stream process_results False driver_environ p of
        Inl e \<Rightarrow> Inl e
      | Inr (rs, driver_environ1, p1) \<Rightarrow> Inr (rs, driver_environ1, p1))"

definition start_predicting ::
  "('b \<Rightarrow> bool \<Rightarrow> 's) \<Rightarrow> (py_error + ('r, 'b, 'v) envelope option list) \<Rightarrow> environment
     \<Rightarrow> ('r, 's, 'v) plugin \<Rightarrow> py_error + ('r option \<times> environment \<times> ('r, 's, 'v) plugin)" where
  "start_predicting load_state_stream process_results driver_environ p =
     (case execution_loop load_state_stream process_results False driver_environ p of
        Inl e \<Rightarrow> Inl e
      | Inr (rs, driver_environ1, p1) \<Rightarrow> Inr (rs, driver_environ1, p1))"

subsection \<open>Teardown\<close>

text \<open>
  \<^verbatim>\<open>
  def post_dispatch(self, trainer):
      def shutdown_remote():
          torch.distributed.destroy_process_group()
          if torch.cuda.is_available():
              torch.cuda.empty_cache()

      ray.get([w.execute.remote(shutdown_remote) for w in self.workers])
      for w in self.workers:
          ray.kill(w, no_restart=True)
          del w
      self.workers = []
  \<close>
  \<open>shutdown_remote\<close> calls into torch only: what it does in a worker's process, and
  whether it raises there, is a parameter. The result holds the actors after the call
  next to the plugin, which no longer refers to them.
\<close>

definition post_dispatch ::
  "(worker \<Rightarrow> py_error + worker) \<Rightarrow> ('r, 's, 'v) plugin
     \<Rightarrow> py_error + (worker list \<times> ('r, 's, 'v) plugin)" where
  "post_dispatch shutdown_remote p =
     (case ray_get (map (\<lambda>w. remote w (execute shutdown_remote)) (self_workers p)) of
        Inl e \<Rightarrow> Inl e
      | Inr ws \<Rightarrow> Inr (map ray_kill ws, p\<lparr>self_workers := []\<rparr>))"

subsection \<open>Execution in a worker\<close>

text \<open>Python's \<^verbatim>\<open>xs[i]\<close>: a negative index counts from the end.\<close>

definition py_index :: "'a list \<Rightarrow> int \<Rightarrow> py_error + 'a" where
  "py_index xs i =
     (let n = int (length xs); j = (if i < 0 then n + i else i)
      in if 0 \<le> j \<and> j < n then Inr (xs ! nat j) else Inl IndexError)"

text \<open>
  \<^verbatim>\<open>
  def set_world_ranks(self, process_idx: int = 0):
      if self._is_remote:
          self._global_rank = process_idx
          self._local_rank, self._node_rank = self.global_to_local[self.global_rank]
  \<close>
  The property \<^verbatim>\<open>global_rank\<close> returns \<^verbatim>\<open>self._global_rank\<close>.
\<close>

definition set_world_ranks ::
  "int \<Rightarrow> ('r, 's, 'v) plugin \<Rightarrow> py_error + ('r, 's, 'v) plugin" where
  "set_world_ranks process_idx p =
     (if self_is_remote p then
        (let p1 = p\<lparr>self_global_rank := process_idx\<rparr>
         in case self_global_to_local p1 of
              None \<Rightarrow> Inl AttributeError
            | Some ranks \<Rightarrow>
                (case py_index ranks (self_global_rank p1) of
                   Inl e \<Rightarrow> Inl e
                 | Inr None \<Rightarrow> Inl TypeError
                 | Inr (Some (lr, nr)) \<Rightarrow>
                     Inr (p1\<lparr>self_local_rank := lr, self_node_rank := nr\<rparr>)))
      else Inr p)"

text \<open>
  \<^verbatim>\<open>
  def _worker_setup(self, process_idx: int):
      reset_seed()
      self.set_world_ranks(process_idx)
      rank_zero_only.rank = self.global_rank
      if torch.distributed.is_available() and not torch.distributed.is_initialized():
          torch.distributed.init_process_group(...)
  \<close>
  The seed, \<^verbatim>\<open>rank_zero_only\<close> and the process group are state of torch and of
  PyTorch Lightning in the worker's process, outside the plugin.
\<close>

definition worker_setup ::
  "int \<Rightarrow> ('r, 's, 'v) plugin \<Rightarrow> py_error + ('r, 's, 'v) plugin" where
  "worker_setup process_idx p = set_world_ranks process_idx p"

text \<open>
  \<^verbatim>\<open>
  def execute_remote(self, model, global_rank, queue=None):
      self._model = model
      ...
      self._is_remote = True
      if queue is not None:
          init_session(rank=global_rank, queue=queue)
      self._worker_setup(process_idx=global_rank)
      self.model_to_device()
      ...
      self.barrier()
      results = self.lightning_module.trainer.run_stage()
      if self.global_rank == 0:
          checkpoint_callback = self.lightning_module.trainer.checkpoint_callback
          best_model_path = (checkpoint_callback.best_model_path
                             if checkpoint_callback else None)
          model_state_stream = to_state_stream(self.lightning_module.state_dict())
          callback_metrics: dict = apply_to_collection(
              self.lightning_module.trainer.callback_metrics,
              torch.Tensor, lambda x: x.cpu().numpy())
          return_val = results, best_model_path, model_state_stream, callback_metrics
      else:
          return_val = None
      self.lightning_module.trainer._call_teardown_hook()
      return return_val
  \<close>
  \<open>run_stage\<close> is the training, evaluation or prediction itself: from the module, its
  result and the module afterwards, or an exception. \<open>to_state_stream\<close> is a function of
  \<^verbatim>\<open>ray_lightning.util\<close>. Both are parameters. The other calls (data preparation, the
  session, the device, DDP wrapping, the barrier, the teardown hook) act on state of
  torch and PyTorch Lightning outside the plugin and return nothing that is used.
\<close>

definition execute_remote ::
  "(('s, 'v) lightning_module \<Rightarrow> py_error + ('r \<times> ('s, 'v) lightning_module)) \<Rightarrow> ('s \<Rightarrow> 'b)
     \<Rightarrow> ('s, 'v) lightning_module \<Rightarrow> int \<Rightarrow> ('r, 's, 'v) plugin
     \<Rightarrow> py_error + (('r, 'b, 'v) envelope option \<times> ('r, 's, 'v) plugin)" where
  "execute_remote run_stage to_state_stream lmodule process_idx p =
     (let p1 = p\<lparr>self_model := Some lmodule\<rparr>;
          p2 = p1\<lparr>self_is_remote := True\<rparr>
      in case worker_setup process_idx p2 of
           Inl e \<Rightarrow> Inl e
         | Inr p3 \<Rightarrow>
             (case self_model p3 of
                None \<Rightarrow> Inl AttributeError
              | Some m \<Rightarrow>
                  (case run_stage m of
                     Inl e \<Rightarrow> Inl e
                   | Inr (rs, m1) \<Rightarrow>
                       (let p4 = p3\<lparr>self_model := Some m1\<rparr>;
                            return_val =
                              (if self_global_rank p4 = 0 then
                                 (let best_model_path =
                                        (case checkpoint_callback (trainer m1) of
                                           None \<Rightarrow> None
                                         | Some path \<Rightarrow> path);
                                      model_state_stream = to_state_stream (state_dict m1);
                                      metrics = apply_to_collection
                                        (callback_metrics (trainer m1)) is_tensor to_numpy
                                  in Some (rs, best_model_path, model_state_stream, metrics))
                               else None)
                        in Inr (return_val, p4)))))"

section \<open>A pool for the examples\<close>

text \<open>
  A reachable actor on the node with address \<open>ip\<close>, and the plugin after \<^verbatim>\<open>setup\<close> when
  Ray has placed one actor on each node of the list, in this order.
\<close>

definition worker_on :: "string \<Rightarrow> worker" where
  "worker_on ip = \<lparr>node_ip = ip, free_port = 29500, os_environ = Map.empty, alive = True\<rparr>"

definition pool_on :: "string list \<Rightarrow> (nat, nat, nat) plugin" where
  "pool_on ips = (init (length ips) False)\<lparr>self_workers := map worker_on ips\<rparr>"

text \<open>
  A module on the driver: its trainer has a checkpoint callback with an empty
  \<^verbatim>\<open>best_model_path\<close>, no metrics yet and one optimizer.
\<close>

definition example_module :: "(nat, nat) lightning_module" where
  "example_module =
     \<lparr>state_dict = 0,
      trainer = \<lparr>checkpoint_callback = Some (Some []), callback_metrics = Map.empty,
                 optimizers = [1], state_fn = FITTING\<rparr>\<rparr>"

section \<open>Properties of the rank resolution\<close>

text \<open>The pool of the examples is what \<^verbatim>\<open>setup\<close> makes of a new plugin.\<close>

lemma setup_workers_pool_on:
  "setup_workers (\<lambda>i. worker_on (ips ! i)) None (init (length ips) False) = Inr (pool_on ips)"
proof -
  have "map (\<lambda>i. worker_on (ips ! i)) [0..<length ips] = map worker_on (map ((!) ips) [0..<length ips])"
    by simp
  also have "\<dots> = map worker_on ips"
    by (simp only: map_nth)
  finally show ?thesis
    by (simp add: setup_workers_def init_def pool_on_def)
qed


text \<open>The first loop gives every address of the list a node rank.\<close>

lemma dom_node_ip_map_loop:
  "dom (node_ip_map_loop node_ips i m) = dom m \<union> set (drop i node_ips)"
proof (induction node_ips i m rule: node_ip_map_loop.induct)
  case (1 node_ips i m)
  show ?case
  proof (cases "i < length node_ips")
    case True
    then have "drop i node_ips = node_ips ! i # drop (Suc i) node_ips"
      by (simp add: Cons_nth_drop_Suc)
    moreover have "node_ip_map_loop node_ips i m =
        node_ip_map_loop node_ips (Suc i) (m(node_ips ! i \<mapsto> i))"
      using True by (subst node_ip_map_loop.simps) simp
    moreover have "dom (node_ip_map_loop node_ips (Suc i) (m(node_ips ! i \<mapsto> i))) =
        dom (m(node_ips ! i \<mapsto> i)) \<union> set (drop (Suc i) node_ips)"
      using True by (rule "1.IH")
    ultimately show ?thesis by simp
  next
    case False
    then show ?thesis
      by (subst node_ip_map_loop.simps) simp
  qed
qed

text \<open>
  The invariant of the second loop: before the iteration for the global rank \<open>g\<close>, the
  counter of an address is the number of its occurrences among the first \<open>g\<close> addresses,
  and the entries below \<open>g\<close> are final.
\<close>

lemma global_to_local_loop_inv:
  assumes "n \<le> length ips"
    and "set ips \<subseteq> dom m"
    and "length acc = n"
    and "g \<le> n"
    and "\<And>ip. c ip = count_list (take g ips) ip"
    and "\<And>j. j < g \<Longrightarrow> acc ! j = Some (count_list (take j ips) (ips ! j), the (m (ips ! j)))"
  shows "\<exists>r. global_to_local_loop n ips m g c acc = Inr r \<and> length r = n \<and>
           (\<forall>j<n. r ! j = Some (count_list (take j ips) (ips ! j), the (m (ips ! j))))"
  using assms
proof (induction n ips m g c acc rule: global_to_local_loop.induct)
  case (1 n ips m g c acc)
  show ?case
  proof (cases "g < n")
    case False
    with "1.prems" have "g = n" by simp
    with "1.prems" show ?thesis
      by (subst global_to_local_loop.simps) simp
  next
    case True
    with "1.prems" have gl: "g < length ips" by simp
    then have "ips ! g \<in> dom m" using "1.prems"(2) by (meson nth_mem subsetD)
    then obtain nr where nr: "m (ips ! g) = Some nr" by auto
    let ?c = "c(ips ! g := c (ips ! g) + 1)"
    let ?acc = "acc[g := Some (c (ips ! g), nr)]"
    have tk: "take (Suc g) ips = take g ips @ [ips ! g]"
      using gl by (simp add: take_Suc_conv_app_nth)
    have c': "\<And>ip. ?c ip = count_list (take (Suc g) ips) ip"
      using "1.prems"(5) by (simp add: tk)
    have acc': "\<And>j. j < Suc g \<Longrightarrow>
        ?acc ! j = Some (count_list (take j ips) (ips ! j), the (m (ips ! j)))"
    proof -
      fix j assume "j < Suc g"
      then consider "j < g" | "j = g" by linarith
      then show "?acc ! j = Some (count_list (take j ips) (ips ! j), the (m (ips ! j)))"
      proof cases
        case 1
        then show ?thesis using "1.prems"(6)[of j] by simp
      next
        case 2
        then show ?thesis using True "1.prems"(3,5) nr by simp
      qed
    qed
    have "\<exists>r. global_to_local_loop n ips m (Suc g) ?c ?acc = Inr r \<and> length r = n \<and>
           (\<forall>j<n. r ! j = Some (count_list (take j ips) (ips ! j), the (m (ips ! j))))"
    proof (rule "1.IH"[OF True gl refl nr])
      show "n \<le> length ips" by (rule "1.prems"(1))
      show "set ips \<subseteq> dom m" by (rule "1.prems"(2))
      show "length ?acc = n" using "1.prems"(3) by simp
      show "Suc g \<le> n" using True by simp
      show "\<And>ip. ?c ip = count_list (take (Suc g) ips) ip" by (rule c')
      show "\<And>j. j < Suc g \<Longrightarrow>
          ?acc ! j = Some (count_list (take j ips) (ips ! j), the (m (ips ! j)))"
        by (rule acc')
    qed
    then show ?thesis
      using True gl nr by (subst global_to_local_loop.simps) (simp add: Let_def)
  qed
qed

lemma rank_assignment_local:
  assumes "n \<le> length ips"
  shows "\<exists>r. rank_assignment n ips = Inr r \<and> length r = n \<and>
           (\<forall>j<n. map_option fst (r ! j) = Some (length (filter (\<lambda>ip. ip = ips ! j) (take j ips))))"
proof -
  let ?m = "node_ip_map_loop ips 0 Map.empty"
  have "set ips \<subseteq> dom ?m" by (simp add: dom_node_ip_map_loop)
  then have "\<exists>r. global_to_local_loop n ips ?m 0 (\<lambda>ip. 0) (replicate n None) = Inr r \<and>
      length r = n \<and>
      (\<forall>j<n. r ! j = Some (count_list (take j ips) (ips ! j), the (?m (ips ! j))))"
    using assms by (intro global_to_local_loop_inv) simp_all
  then obtain r where r: "global_to_local_loop n ips ?m 0 (\<lambda>ip. 0) (replicate n None) = Inr r"
      "length r = n"
      "\<forall>j<n. r ! j = Some (count_list (take j ips) (ips ! j), the (?m (ips ! j)))"
    by blast
  have eq: "\<And>xs y. count_list xs y = length (filter (\<lambda>ip. ip = y) xs)"
    by (simp add: count_list_eq_length_filter eq_commute)
  show ?thesis
    using r by (simp add: rank_assignment_def eq)
qed

lemma ray_get_node_ips:
  "\<forall>w\<in>set ws. alive w \<Longrightarrow> ray_get (map (\<lambda>w. remote w get_node_ip) ws) = Inr (map node_ip ws)"
  by (induction ws) (simp_all add: remote_def get_node_ip_def)

text \<open>
  On a pool of reachable workers, as many as \<^verbatim>\<open>num_workers\<close>, the addresses all arrive
  and the assignment has an entry for every worker.
\<close>

lemma get_local_ranks_alive:
  assumes "self_num_workers p = length (self_workers p)"
    and "\<forall>w\<in>set (self_workers p). alive w"
  shows "\<exists>ranks. get_local_ranks p = Inr ranks \<and> length ranks = length (self_workers p) \<and>
           (\<forall>g<length (self_workers p).
              map_option fst (ranks ! g) =
                Some (length (filter (\<lambda>ip. ip = node_ip (self_workers p ! g))
                        (take g (map node_ip (self_workers p))))))"
proof -
  let ?ips = "map node_ip (self_workers p)"
  have "\<exists>r. rank_assignment (length ?ips) ?ips = Inr r \<and> length r = length ?ips \<and>
      (\<forall>j<length ?ips. map_option fst (r ! j) =
          Some (length (filter (\<lambda>ip. ip = ?ips ! j) (take j ?ips))))"
    by (rule rank_assignment_local) simp
  then show ?thesis
    using assms by (simp add: get_local_ranks_def ray_get_node_ips)
qed

text \<open>
  C5. For every non-empty pool of reachable workers, as many as \<^verbatim>\<open>num_workers\<close>,
  \<^verbatim>\<open>get_local_ranks\<close> returns one entry for each global rank, and the local rank of the
  global rank \<open>g\<close> is the number of workers of a smaller global rank on the same node: the
  workers of a node get 0, 1, 2, ... in the order of their global ranks. For the
  identities A, B, A, A, B the local ranks are 0, 0, 1, 2, 1 (the example that follows).
\<close>

theorem get_local_ranks_local_rank:
  assumes "self_workers p \<noteq> []"
    and "self_num_workers p = length (self_workers p)"
    and "\<forall>w\<in>set (self_workers p). alive w"
  shows "\<exists>ranks. get_local_ranks p = Inr ranks \<and> length ranks = length (self_workers p) \<and>
           (\<forall>g<length (self_workers p).
              map_option fst (ranks ! g) =
                Some (length (filter (\<lambda>ip. ip = node_ip (self_workers p ! g))
                        (take g (map node_ip (self_workers p))))))"
  using assms(2,3) by (rule get_local_ranks_alive)

theorem get_local_ranks_local_rank_witness:
  "\<exists>ranks. get_local_ranks (pool_on [''A'', ''B'', ''A'', ''A'', ''B'']) = Inr ranks \<and>
     map (map_option fst) ranks = [Some 0, Some 0, Some 1, Some 2, Some 1]"
proof -
  let ?p = "pool_on [''A'', ''B'', ''A'', ''A'', ''B'']"
  have ws: "self_workers ?p = map worker_on [''A'', ''B'', ''A'', ''A'', ''B'']"
    by (simp add: pool_on_def)
  have "self_workers ?p \<noteq> []" "self_num_workers ?p = length (self_workers ?p)"
    "\<forall>w\<in>set (self_workers ?p). alive w"
    by (simp_all add: pool_on_def init_def worker_on_def)
  from get_local_ranks_local_rank[OF this] obtain ranks where
    r: "get_local_ranks ?p = Inr ranks" "length ranks = 5"
      "\<forall>g<5. map_option fst (ranks ! g) =
          Some (length (filter (\<lambda>ip. ip = node_ip (self_workers ?p ! g))
                  (take g (map node_ip (self_workers ?p)))))"
    by (auto simp: ws)
  have nth: "\<And>g. g < 5 \<Longrightarrow> map_option fst (ranks ! g) =
      Some (length (filter (\<lambda>ip. ip = node_ip (self_workers ?p ! g))
              (take g (map node_ip (self_workers ?p)))))"
    using r(3) by blast
  have "map_option fst (ranks ! 0) = Some 0"
    using nth[of 0] by (simp add: ws worker_on_def)
  moreover have "map_option fst (ranks ! 1) = Some 0"
    using nth[of 1] by (simp add: ws worker_on_def)
  moreover have "map_option fst (ranks ! 2) = Some 1"
    using nth[of 2] by (simp add: ws worker_on_def)
  moreover have "map_option fst (ranks ! 3) = Some 2"
    using nth[of 3] by (simp add: ws worker_on_def numeral_2_eq_2)
  moreover have "map_option fst (ranks ! 4) = Some 1"
    using nth[of 4] by (simp add: ws worker_on_def)
  ultimately have "map (map_option fst) ranks = [Some 0, Some 0, Some 1, Some 2, Some 1]"
    using r(2) by (intro nth_equalityI) (auto simp: less_Suc_eq numeral_eq_Suc)
  with r(1) show ?thesis by simp
qed

text \<open>
  C1. The node rank the code gives a worker is not the first-seen index of its node: the
  first loop overwrites the entry of an address at each of its occurrences, so the node
  rank is the last global rank on that node. For the identities A, B, A, A, B the node
  ranks are 3, 4, 3, 3, 4, where a dense numbering in first-seen order is 0, 1, 0, 0, 1.
  With two workers on a single node A, both get the node rank 1 and none the node rank 0.
\<close>

theorem get_local_ranks_node_rank_last_index:
  "get_local_ranks (pool_on [''A'', ''B'', ''A'', ''A'', ''B'']) =
     Inr [Some (0, 3), Some (0, 4), Some (1, 3), Some (2, 3), Some (1, 4)] \<and>
   get_local_ranks (pool_on [''A'', ''A'']) = Inr [Some (0, 1), Some (1, 1)]"
  by (simp add: get_local_ranks_def pool_on_def init_def worker_on_def remote_def
      get_node_ip_def rank_assignment_def node_ip_map_loop.simps global_to_local_loop.simps)

text \<open>
  C6. The rank resolution does not reject an empty pool: it returns the empty
  assignment.
\<close>

theorem get_local_ranks_empty_counterexample:
  "get_local_ranks (pool_on []) = Inr []"
  by (simp add: get_local_ranks_def pool_on_def init_def remote_def
      get_node_ip_def rank_assignment_def node_ip_map_loop.simps global_to_local_loop.simps)

text \<open>
  C6, as amended. The rank resolution is a function of the pool, and for every pool of
  reachable workers, as many as \<^verbatim>\<open>num_workers\<close>, it succeeds with one entry for each
  worker; the empty pool is no exception.
\<close>

theorem get_local_ranks_succeeds:
  assumes "self_num_workers p = length (self_workers p)"
    and "\<forall>w\<in>set (self_workers p). alive w"
  shows "\<exists>ranks. get_local_ranks p = Inr ranks \<and> length ranks = length (self_workers p)"
proof -
  from get_local_ranks_alive[OF assms] obtain ranks where
    "get_local_ranks p = Inr ranks" "length ranks = length (self_workers p)"
    by (elim exE conjE)
  then show ?thesis by (intro exI conjI)
qed

theorem get_local_ranks_succeeds_witness:
  "\<exists>ranks. get_local_ranks (pool_on [''n1'', ''n1'', ''n2'']) = Inr ranks \<and> length ranks = 3"
proof -
  let ?p = "pool_on [''n1'', ''n1'', ''n2'']"
  have "self_num_workers ?p = length (self_workers ?p)"
    "\<forall>w\<in>set (self_workers ?p). alive w"
    by (simp_all add: pool_on_def init_def worker_on_def)
  from get_local_ranks_succeeds[OF this] show ?thesis
    by (simp add: pool_on_def numeral_3_eq_3)
qed

section \<open>Properties of the rendezvous\<close>

text \<open>\<^verbatim>\<open>ray.get\<close> on the futures of one call on each worker of a list.\<close>

lemma ray_get_map_Inr:
  "\<forall>w\<in>set ws. f w = Inr (g w) \<Longrightarrow> ray_get (map f ws) = Inr (map g ws)"
  by (induction ws) simp_all

lemma ray_get_map_Inl:
  "w \<in> set ws \<Longrightarrow> f w = Inl e \<Longrightarrow> \<exists>e'. ray_get (map f ws) = Inl e'"
  by (induction ws) (auto split: sum.splits)

lemma ray_get_map_Inr_iff:
  "(\<exists>vs. ray_get (map f ws) = Inr vs) \<longleftrightarrow> (\<forall>w\<in>set ws. \<not> isl (f w))"
  by (induction ws) (auto split: sum.splits simp: isl_def)

lemma ray_get_map_projr:
  "\<forall>w\<in>set ws. \<not> isl (f w) \<Longrightarrow> ray_get (map f ws) = Inr (map (\<lambda>w. projr (f w)) ws)"
  by (rule ray_get_map_Inr) simp

text \<open>
  The broadcast with the four keys, and the whole of \<^verbatim>\<open>_setup_env_vars\<close> on a pool of
  reachable workers.
\<close>

lemma set_env_vars_env_keys:
  "set_env_vars env_keys [a, b, c, d] w =
     Inr (set_env_var ''MASTER_PORT'' d (set_env_var ''MASTER_ADDR'' c
       (set_env_var ''PL_TORCH_DISTRIBUTED_BACKEND'' b (set_env_var ''PL_GLOBAL_SEED'' a w))))"
  by (simp add: set_env_vars_def env_keys_def)

lemma setup_env_vars_alive:
  assumes "self_workers p \<noteq> []" and "\<forall>w\<in>set (self_workers p). alive w"
  shows "setup_env_vars driver_environ p =
     Inr (driver_environ(''MASTER_ADDR'' \<mapsto> node_ip (self_workers p ! 0),
            ''MASTER_PORT'' \<mapsto> str_nat (free_port (self_workers p ! 0))),
          p\<lparr>self_workers := map (\<lambda>w.
             set_env_var ''MASTER_PORT'' (Some (str_nat (free_port (self_workers p ! 0))))
               (set_env_var ''MASTER_ADDR'' (Some (node_ip (self_workers p ! 0)))
                 (set_env_var ''PL_TORCH_DISTRIBUTED_BACKEND''
                    (driver_environ ''PL_TORCH_DISTRIBUTED_BACKEND'')
                    (set_env_var ''PL_GLOBAL_SEED'' (driver_environ ''PL_GLOBAL_SEED'') w))))
            (self_workers p)\<rparr>)"
proof -
  obtain w0 ws where ws: "self_workers p = w0 # ws"
    using assms(1) by (cases "self_workers p") auto
  have a0: "alive w0" using assms(2) ws by simp
  let ?env = "driver_environ(''MASTER_ADDR'' \<mapsto> node_ip w0,
            ''MASTER_PORT'' \<mapsto> str_nat (free_port w0))"
  let ?vals = "map ?env env_keys"
  let ?g = "\<lambda>w. set_env_var ''MASTER_PORT'' (Some (str_nat (free_port w0)))
               (set_env_var ''MASTER_ADDR'' (Some (node_ip w0))
                 (set_env_var ''PL_TORCH_DISTRIBUTED_BACKEND''
                    (driver_environ ''PL_TORCH_DISTRIBUTED_BACKEND'')
                    (set_env_var ''PL_GLOBAL_SEED'' (driver_environ ''PL_GLOBAL_SEED'') w)))"
  have vals: "?vals = [driver_environ ''PL_GLOBAL_SEED'',
      driver_environ ''PL_TORCH_DISTRIBUTED_BACKEND'', Some (node_ip w0),
      Some (str_nat (free_port w0))]"
    by (simp add: env_keys_def)
  have "\<forall>w\<in>set (self_workers p). remote w (set_env_vars env_keys ?vals) = Inr (?g w)"
    using assms(2) by (simp add: remote_def vals set_env_vars_env_keys)
  then have "ray_get (map (\<lambda>w. remote w (set_env_vars env_keys ?vals)) (self_workers p)) =
      Inr (map ?g (self_workers p))"
    by (rule ray_get_map_Inr)
  then show ?thesis
    using a0 ws
    by (simp add: setup_env_vars_def remote_def get_node_ip_def execute_def find_free_port_def
        Let_def)
qed

lemma broadcast_unset_key:
  assumes "k = ''PL_GLOBAL_SEED'' \<or> k = ''PL_TORCH_DISTRIBUTED_BACKEND''"
    and "driver_environ k = None"
  shows "os_environ (set_env_var ''MASTER_PORT'' (Some a) (set_env_var ''MASTER_ADDR'' (Some b)
           (set_env_var ''PL_TORCH_DISTRIBUTED_BACKEND''
              (driver_environ ''PL_TORCH_DISTRIBUTED_BACKEND'')
              (set_env_var ''PL_GLOBAL_SEED'' (driver_environ ''PL_GLOBAL_SEED'') w)))) k =
         os_environ w k"
  using assms by (elim disjE) (simp_all add: set_env_var_def split: option.splits)

text \<open>
  C7. On a non-empty pool of reachable workers \<^verbatim>\<open>_setup_env_vars\<close> succeeds. The address
  and the port it puts into the driver's environment are those of the worker of global
  rank 0: its node address, and the port bound and released in its process. Every
  worker of the pool then gets the same call \<^verbatim>\<open>set_env_vars(keys, values)\<close>, with the
  values of the four keys in the driver's environment after that, so each of the four
  that is set there has the same value in every worker's environment.
\<close>

theorem setup_env_vars_rendezvous:
  assumes "self_workers p \<noteq> []" and "\<forall>w\<in>set (self_workers p). alive w"
  shows "\<exists>environ1 p1. setup_env_vars driver_environ p = Inr (environ1, p1) \<and>
           environ1 = driver_environ(''MASTER_ADDR'' \<mapsto> node_ip (self_workers p ! 0),
             ''MASTER_PORT'' \<mapsto> str_nat (free_port (self_workers p ! 0))) \<and>
           length (self_workers p1) = length (self_workers p) \<and>
           (\<forall>i<length (self_workers p).
              set_env_vars env_keys (map environ1 env_keys) (self_workers p ! i) =
                Inr (self_workers p1 ! i) \<and>
              (\<forall>k\<in>set env_keys. \<forall>v. environ1 k = Some v \<longrightarrow>
                 os_environ (self_workers p1 ! i) k = Some v))"
  unfolding setup_env_vars_alive[OF assms]
  by (simp add: env_keys_def set_env_vars_def set_env_var_def split: option.splits)

theorem setup_env_vars_rendezvous_witness:
  "\<exists>environ1 p1.
     setup_env_vars [''PL_GLOBAL_SEED'' \<mapsto> ''42'']
       ((pool_on [''10.0.0.1'', ''10.0.0.2''])\<lparr>self_workers :=
          [(worker_on ''10.0.0.1'')\<lparr>free_port := 40001\<rparr>,
           (worker_on ''10.0.0.2'')\<lparr>free_port := 40002\<rparr>]\<rparr>) = Inr (environ1, p1) \<and>
     map environ1 env_keys = [Some ''42'', None, Some ''10.0.0.1'', Some ''40001''] \<and>
     map (os_environ (self_workers p1 ! 0)) env_keys =
       [Some ''42'', None, Some ''10.0.0.1'', Some ''40001''] \<and>
     map (os_environ (self_workers p1 ! 1)) env_keys =
       [Some ''42'', None, Some ''10.0.0.1'', Some ''40001'']"
proof -
  define w0 where "w0 = (worker_on ''10.0.0.1'')\<lparr>free_port := 40001\<rparr>"
  define w1 where "w1 = (worker_on ''10.0.0.2'')\<lparr>free_port := 40002\<rparr>"
  define p :: "(nat, nat, nat) plugin"
    where "p = (pool_on [''10.0.0.1'', ''10.0.0.2''])\<lparr>self_workers := [w0, w1]\<rparr>"
  define env :: environment where "env = [''PL_GLOBAL_SEED'' \<mapsto> ''42'']"
  have ws: "self_workers p = [w0, w1]"
    by (simp add: p_def)
  have h: "self_workers p \<noteq> []" "\<forall>w\<in>set (self_workers p). alive w"
    by (simp_all add: ws w0_def w1_def worker_on_def)
  have port: "str_nat 40001 = ''40001''"
    by (simp add: str_nat.simps)
  from setup_env_vars_rendezvous[OF h, of env] obtain environ1 p1 where
    r: "setup_env_vars env p = Inr (environ1, p1)" and
    r2: "environ1 = env(''MASTER_ADDR'' \<mapsto> node_ip (self_workers p ! 0),
             ''MASTER_PORT'' \<mapsto> str_nat (free_port (self_workers p ! 0)))" and
    r4: "\<forall>i<length (self_workers p).
           set_env_vars env_keys (map environ1 env_keys) (self_workers p ! i) =
             Inr (self_workers p1 ! i) \<and>
           (\<forall>k\<in>set env_keys. \<forall>v. environ1 k = Some v \<longrightarrow>
              os_environ (self_workers p1 ! i) k = Some v)"
    by (elim exE conjE)
  have e: "map environ1 env_keys = [Some ''42'', None, Some ''10.0.0.1'', Some ''40001'']"
    by (simp add: r2 ws w0_def worker_on_def port env_def env_keys_def)
  have s0: "set_env_vars env_keys (map environ1 env_keys) w0 = Inr (self_workers p1 ! 0)"
    using r4[rule_format, of 0] by (simp add: ws)
  have s1: "set_env_vars env_keys (map environ1 env_keys) w1 = Inr (self_workers p1 ! 1)"
    using r4[rule_format, of 1] by (simp add: ws)
  have "self_workers p1 ! 0 = set_env_var ''MASTER_PORT'' (Some ''40001'')
       (set_env_var ''MASTER_ADDR'' (Some ''10.0.0.1'')
         (set_env_var ''PL_TORCH_DISTRIBUTED_BACKEND'' None
           (set_env_var ''PL_GLOBAL_SEED'' (Some ''42'') w0)))"
    using s0 by (simp add: e set_env_vars_env_keys)
  then have m0: "map (os_environ (self_workers p1 ! 0)) env_keys =
       [Some ''42'', None, Some ''10.0.0.1'', Some ''40001'']"
    by (simp add: set_env_var_def w0_def worker_on_def env_keys_def)
  have "self_workers p1 ! 1 = set_env_var ''MASTER_PORT'' (Some ''40001'')
       (set_env_var ''MASTER_ADDR'' (Some ''10.0.0.1'')
         (set_env_var ''PL_TORCH_DISTRIBUTED_BACKEND'' None
           (set_env_var ''PL_GLOBAL_SEED'' (Some ''42'') w1)))"
    using s1 by (simp add: e set_env_vars_env_keys)
  then have m1: "map (os_environ (self_workers p1 ! 1)) env_keys =
       [Some ''42'', None, Some ''10.0.0.1'', Some ''40001'']"
    by (simp add: set_env_var_def w1_def worker_on_def env_keys_def)
  from r e m0 m1 have "setup_env_vars env p = Inr (environ1, p1) \<and>
     map environ1 env_keys = [Some ''42'', None, Some ''10.0.0.1'', Some ''40001''] \<and>
     map (os_environ (self_workers p1 ! 0)) env_keys =
       [Some ''42'', None, Some ''10.0.0.1'', Some ''40001''] \<and>
     map (os_environ (self_workers p1 ! 1)) env_keys =
       [Some ''42'', None, Some ''10.0.0.1'', Some ''40001'']"
    by (intro conjI)
  then show ?thesis
    unfolding p_def w0_def w1_def env_def by (intro exI)
qed

text \<open>
  C9. \<^verbatim>\<open>set_env_var\<close> with the value \<^verbatim>\<open>None\<close> leaves the worker as it is, whatever the key.
  So when the seed or the backend is not set in the driver's environment, the
  rendezvous on a non-empty pool of reachable workers still succeeds, and the variable
  is in every worker's environment what it was before: set to the worker's own value or
  unset.
\<close>

theorem set_env_var_none_skipped:
  "set_env_var key None w = w \<and>
   (self_workers p \<noteq> [] \<and> (\<forall>w\<in>set (self_workers p). alive w) \<and>
    (k = ''PL_GLOBAL_SEED'' \<or> k = ''PL_TORCH_DISTRIBUTED_BACKEND'') \<and>
    driver_environ k = None \<longrightarrow>
      (\<exists>environ1 p1. setup_env_vars driver_environ p = Inr (environ1, p1) \<and>
         environ1 k = None \<and> length (self_workers p1) = length (self_workers p) \<and>
         (\<forall>i<length (self_workers p).
            os_environ (self_workers p1 ! i) k = os_environ (self_workers p ! i) k)))"
proof (intro conjI impI)
  show "set_env_var key None w = w"
    by (simp add: set_env_var_def)
next
  assume h: "self_workers p \<noteq> [] \<and> (\<forall>w\<in>set (self_workers p). alive w) \<and>
    (k = ''PL_GLOBAL_SEED'' \<or> k = ''PL_TORCH_DISTRIBUTED_BACKEND'') \<and>
    driver_environ k = None"
  then have a: "self_workers p \<noteq> []" "\<forall>w\<in>set (self_workers p). alive w"
    by simp_all
  from h have k: "k = ''PL_GLOBAL_SEED'' \<or> k = ''PL_TORCH_DISTRIBUTED_BACKEND''"
    and unset: "driver_environ k = None" by simp_all
  from k have "k \<noteq> ''MASTER_ADDR''" "k \<noteq> ''MASTER_PORT''"
    by auto
  then show "\<exists>environ1 p1. setup_env_vars driver_environ p = Inr (environ1, p1) \<and>
         environ1 k = None \<and> length (self_workers p1) = length (self_workers p) \<and>
         (\<forall>i<length (self_workers p).
            os_environ (self_workers p1 ! i) k = os_environ (self_workers p ! i) k)"
    unfolding setup_env_vars_alive[OF a]
    by (simp add: broadcast_unset_key[of k driver_environ, OF k unset] unset)
qed

theorem set_env_var_none_skipped_witness:
  "set_env_var ''PL_GLOBAL_SEED'' None (worker_on ''10.0.0.1'') = worker_on ''10.0.0.1'' \<and>
   (\<exists>environ1 p1.
      setup_env_vars Map.empty
        ((pool_on [''10.0.0.1'', ''10.0.0.2''])\<lparr>self_workers :=
           [worker_on ''10.0.0.1'',
            (worker_on ''10.0.0.2'')\<lparr>os_environ := [''PL_GLOBAL_SEED'' \<mapsto> ''7'']\<rparr>]\<rparr>) =
        Inr (environ1, p1) \<and>
      environ1 ''PL_GLOBAL_SEED'' = None \<and>
      os_environ (self_workers p1 ! 0) ''PL_GLOBAL_SEED'' = None \<and>
      os_environ (self_workers p1 ! 1) ''PL_GLOBAL_SEED'' = Some ''7'')"
proof -
  define w0 where "w0 = worker_on ''10.0.0.1''"
  define w1 where "w1 = (worker_on ''10.0.0.2'')\<lparr>os_environ := [''PL_GLOBAL_SEED'' \<mapsto> ''7'']\<rparr>"
  define p :: "(nat, nat, nat) plugin"
    where "p = (pool_on [''10.0.0.1'', ''10.0.0.2''])\<lparr>self_workers := [w0, w1]\<rparr>"
  define k where "k = ''PL_GLOBAL_SEED''"
  have ws: "self_workers p = [w0, w1]"
    by (simp add: p_def)
  have h: "self_workers p \<noteq> [] \<and> (\<forall>w\<in>set (self_workers p). alive w) \<and>
    (k = ''PL_GLOBAL_SEED'' \<or> k = ''PL_TORCH_DISTRIBUTED_BACKEND'') \<and>
    (Map.empty :: environment) k = None"
    by (simp add: ws w0_def w1_def worker_on_def k_def)
  note t = set_env_var_none_skipped[of k w0 p k Map.empty]
  from t have first: "set_env_var k None w0 = w0"
    by (rule conjunct1)
  from t[THEN conjunct2, THEN mp, OF h]
  have "\<exists>environ1 p1. setup_env_vars Map.empty p = Inr (environ1, p1) \<and>
         environ1 k = None \<and> length (self_workers p1) = length (self_workers p) \<and>
         (\<forall>i<length (self_workers p).
            os_environ (self_workers p1 ! i) k = os_environ (self_workers p ! i) k)" .
  then obtain environ1 p1 where
    r: "setup_env_vars Map.empty p = Inr (environ1, p1)" and
    r2: "environ1 k = None" and
    r3: "\<forall>i<length (self_workers p).
            os_environ (self_workers p1 ! i) k = os_environ (self_workers p ! i) k"
    by (elim exE conjE)
  have "os_environ (self_workers p1 ! 0) k = os_environ w0 k"
    using r3[rule_format, of 0] by (simp add: ws)
  then have v0: "os_environ (self_workers p1 ! 0) k = None"
    by (simp add: w0_def worker_on_def)
  have "os_environ (self_workers p1 ! 1) k = os_environ w1 k"
    using r3[rule_format, of 1] by (simp add: ws)
  then have v1: "os_environ (self_workers p1 ! 1) k = Some ''7''"
    by (simp add: w1_def k_def)
  from r r2 v0 v1 have "setup_env_vars Map.empty p = Inr (environ1, p1) \<and>
      environ1 k = None \<and> os_environ (self_workers p1 ! 0) k = None \<and>
      os_environ (self_workers p1 ! 1) k = Some ''7''"
    by (intro conjI)
  then have "\<exists>environ1 p1. setup_env_vars Map.empty p = Inr (environ1, p1) \<and>
      environ1 k = None \<and> os_environ (self_workers p1 ! 0) k = None \<and>
      os_environ (self_workers p1 ! 1) k = Some ''7''"
    by (intro exI)
  with first show ?thesis
    unfolding p_def w0_def w1_def k_def by (rule conjI)
qed

section \<open>Properties of serialization\<close>

text \<open>
  C10. For a plugin, whose \<^verbatim>\<open>__dict__\<close> has the key \<^verbatim>\<open>workers\<close>, \<^verbatim>\<open>__getstate__\<close> succeeds
  and the state it hands to the serializer has no key \<^verbatim>\<open>workers\<close>, so no worker handle
  is serialized, while every other key has the value it had. \<^verbatim>\<open>__setstate__\<close> on that
  state, in a new object, gives a \<^verbatim>\<open>__dict__\<close> where \<^verbatim>\<open>workers\<close> is the empty list and every
  other key has the value it had, or is missing as it was.
\<close>

theorem pickle_roundtrip_drops_workers:
  assumes "self_dict ''workers'' = Some ws"
  shows "\<exists>state d. getstate self_dict = Inr state \<and> state ''workers'' = None \<and>
           (\<forall>k. k \<noteq> ''workers'' \<longrightarrow> state k = self_dict k) \<and>
           pickle_roundtrip self_dict = Inr d \<and> d = setstate Map.empty state \<and>
           d ''workers'' = Some (PyList []) \<and>
           (\<forall>k. k \<noteq> ''workers'' \<longrightarrow> d k = self_dict k)"
proof -
  let ?state = "self_dict(''workers'' := None)"
  have g: "getstate self_dict = Inr ?state"
    using assms by (simp add: getstate_def)
  have absent: "?state ''workers'' = None"
    by simp
  have kept: "\<forall>k. k \<noteq> ''workers'' \<longrightarrow> ?state k = self_dict k"
    by simp
  let ?d = "setstate Map.empty ?state"
  have r: "pickle_roundtrip self_dict = Inr ?d"
    by (simp add: pickle_roundtrip_def g)
  have empty: "?d ''workers'' = Some (PyList [])"
    by (simp add: setstate_def)
  have same: "\<forall>k. k \<noteq> ''workers'' \<longrightarrow> ?d k = self_dict k"
    by (simp add: setstate_def map_add_def split: option.splits)
  from g absent kept r empty same show ?thesis
    by (intro exI[of _ ?state] exI[of _ ?d] conjI refl)
qed

theorem pickle_roundtrip_drops_workers_witness:
  "\<exists>state d.
     getstate [''workers'' \<mapsto> PyList [PyRef 1, PyRef 2], ''num_workers'' \<mapsto> PyInt 2,
          ''use_gpu'' \<mapsto> PyBool False] = Inr state \<and>
     state ''workers'' = None \<and> state ''num_workers'' = Some (PyInt 2) \<and>
     state ''use_gpu'' = Some (PyBool False) \<and>
     pickle_roundtrip [''workers'' \<mapsto> PyList [PyRef 1, PyRef 2], ''num_workers'' \<mapsto> PyInt 2,
          ''use_gpu'' \<mapsto> PyBool False] = Inr d \<and>
     d ''workers'' = Some (PyList []) \<and> d ''num_workers'' = Some (PyInt 2) \<and>
     d ''use_gpu'' = Some (PyBool False) \<and> d ''nickname'' = None"
proof -
  define p :: py_dict where
    "p = [''workers'' \<mapsto> PyList [PyRef 1, PyRef 2], ''num_workers'' \<mapsto> PyInt 2,
          ''use_gpu'' \<mapsto> PyBool False]"
  have h: "p ''workers'' = Some (PyList [PyRef 1, PyRef 2])"
    by (simp add: p_def)
  from pickle_roundtrip_drops_workers[of p, OF h] obtain state d where
    g: "getstate p = Inr state" and absent: "state ''workers'' = None" and
    kept: "\<forall>k. k \<noteq> ''workers'' \<longrightarrow> state k = p k" and
    r: "pickle_roundtrip p = Inr d" and empty: "d ''workers'' = Some (PyList [])" and
    same: "\<forall>k. k \<noteq> ''workers'' \<longrightarrow> d k = p k"
    by (elim exE conjE)
  have s1: "state ''num_workers'' = Some (PyInt 2)"
    using kept[rule_format, of "''num_workers''"] by (simp add: p_def)
  have s2: "state ''use_gpu'' = Some (PyBool False)"
    using kept[rule_format, of "''use_gpu''"] by (simp add: p_def)
  have d1: "d ''num_workers'' = Some (PyInt 2)"
    using same[rule_format, of "''num_workers''"] by (simp add: p_def)
  have d2: "d ''use_gpu'' = Some (PyBool False)"
    using same[rule_format, of "''use_gpu''"] by (simp add: p_def)
  have d3: "d ''nickname'' = None"
    using same[rule_format, of "''nickname''"] by (simp add: p_def)
  from g absent s1 s2 r empty d1 d2 d3 show ?thesis
    unfolding p_def by (intro exI[of _ state] exI[of _ d] conjI)
qed

section \<open>Properties of the teardown\<close>

text \<open>
  C3. Teardown re-raises: with one worker of two already dead, or with a shutdown call
  that fails in one worker of two, \<^verbatim>\<open>post_dispatch\<close> ends in the error that \<^verbatim>\<open>ray.get\<close>
  raises, before any worker is killed and before the list of workers is cleared.
\<close>

theorem post_dispatch_unreachable_counterexample:
  "post_dispatch Inr ((pool_on [''n1'', ''n2''])\<lparr>self_workers :=
       [worker_on ''n1'', ray_kill (worker_on ''n2'')]\<rparr>) = Inl RayActorError \<and>
   post_dispatch (\<lambda>w. if node_ip w = ''n2'' then Inl RayTaskError else Inr w)
     (pool_on [''n1'', ''n2'']) = Inl RayTaskError"
  by (simp add: post_dispatch_def remote_def execute_def ray_kill_def worker_on_def pool_on_def)

text \<open>
  C3, as amended. Teardown waits for the shutdown call of all workers at once. When
  every worker is reachable and its shutdown call succeeds, it kills each worker and
  completes, leaving the pool's list of workers empty. When some worker is unreachable
  or its shutdown call fails, the error is raised to the caller.
\<close>

theorem post_dispatch_all_or_error:
  "((\<forall>w\<in>set (self_workers p). alive w \<and> \<not> isl (shutdown_remote w)) \<longrightarrow>
      (\<exists>ws. post_dispatch shutdown_remote p = Inr (ws, p\<lparr>self_workers := []\<rparr>) \<and>
         length ws = length (self_workers p) \<and> (\<forall>w\<in>set ws. \<not> alive w))) \<and>
   ((\<exists>w\<in>set (self_workers p). \<not> alive w \<or> isl (shutdown_remote w)) \<longrightarrow>
      (\<exists>e. post_dispatch shutdown_remote p = Inl e))"
proof (intro conjI impI)
  let ?f = "\<lambda>w. remote w (execute shutdown_remote)"
  assume "\<forall>w\<in>set (self_workers p). alive w \<and> \<not> isl (shutdown_remote w)"
  then have "\<forall>w\<in>set (self_workers p). \<not> isl (?f w)"
    by (simp add: remote_def execute_def)
  then have "ray_get (map ?f (self_workers p)) = Inr (map (\<lambda>w. projr (?f w)) (self_workers p))"
    by (rule ray_get_map_projr)
  then show "\<exists>ws. post_dispatch shutdown_remote p = Inr (ws, p\<lparr>self_workers := []\<rparr>) \<and>
         length ws = length (self_workers p) \<and> (\<forall>w\<in>set ws. \<not> alive w)"
    by (simp add: post_dispatch_def ray_kill_def)
next
  let ?f = "\<lambda>w. remote w (execute shutdown_remote)"
  assume "\<exists>w\<in>set (self_workers p). \<not> alive w \<or> isl (shutdown_remote w)"
  then have "\<not> (\<forall>w\<in>set (self_workers p). \<not> isl (?f w))"
    by (auto simp: remote_def execute_def)
  then have "\<not> (\<exists>vs. ray_get (map ?f (self_workers p)) = Inr vs)"
    using ray_get_map_Inr_iff[of ?f "self_workers p"] by blast
  then obtain e where "ray_get (map ?f (self_workers p)) = Inl e"
    by (cases "ray_get (map ?f (self_workers p))") auto
  then show "\<exists>e. post_dispatch shutdown_remote p = Inl e"
    by (simp add: post_dispatch_def)
qed


theorem post_dispatch_all_or_error_witness:
  "(\<exists>ws. post_dispatch Inr (pool_on [''n1'', ''n2'']) =
           Inr (ws, (pool_on [''n1'', ''n2''])\<lparr>self_workers := []\<rparr>) \<and>
         length ws = 2 \<and> \<not> alive (ws ! 0) \<and> \<not> alive (ws ! 1)) \<and>
   (\<exists>e. post_dispatch Inr ((pool_on [''n1'', ''n2''])\<lparr>self_workers :=
            [worker_on ''n1'', ray_kill (worker_on ''n2'')]\<rparr>) = Inl e)"
proof -
  define p :: "(nat, nat, nat) plugin" where "p = pool_on [''n1'', ''n2'']"
  define q :: "(nat, nat, nat) plugin"
    where "q = (pool_on [''n1'', ''n2''])\<lparr>self_workers :=
            [worker_on ''n1'', ray_kill (worker_on ''n2'')]\<rparr>"
  define shutdown_remote :: "worker \<Rightarrow> py_error + worker" where "shutdown_remote = Inr"
  have hp: "\<forall>w\<in>set (self_workers p). alive w \<and> \<not> isl (shutdown_remote w)"
    by (simp add: p_def pool_on_def worker_on_def shutdown_remote_def)
  have hq: "\<exists>w\<in>set (self_workers q). \<not> alive w \<or> isl (shutdown_remote w)"
    by (simp add: q_def ray_kill_def)
  from post_dispatch_all_or_error[of p shutdown_remote, THEN conjunct1, THEN mp, OF hp]
  obtain ws where ws: "post_dispatch shutdown_remote p = Inr (ws, p\<lparr>self_workers := []\<rparr>)"
    "length ws = length (self_workers p)" "\<forall>w\<in>set ws. \<not> alive w"
    by (elim exE conjE)
  have len: "length ws = 2"
    using ws(2) by (simp add: p_def pool_on_def)
  then have "ws ! 0 \<in> set ws" "ws ! 1 \<in> set ws"
    by simp_all
  with ws(3) have dead: "\<not> alive (ws ! 0)" "\<not> alive (ws ! 1)"
    by simp_all
  from ws(1) len dead have "post_dispatch shutdown_remote p = Inr (ws, p\<lparr>self_workers := []\<rparr>) \<and>
         length ws = 2 \<and> \<not> alive (ws ! 0) \<and> \<not> alive (ws ! 1)"
    by (intro conjI)
  then have first: "\<exists>ws. post_dispatch shutdown_remote p = Inr (ws, p\<lparr>self_workers := []\<rparr>) \<and>
         length ws = 2 \<and> \<not> alive (ws ! 0) \<and> \<not> alive (ws ! 1)"
    by (rule exI)
  from post_dispatch_all_or_error[of q shutdown_remote, THEN conjunct2, THEN mp, OF hq]
  have "\<exists>e. post_dispatch shutdown_remote q = Inl e" .
  with first show ?thesis
    unfolding p_def q_def shutdown_remote_def by (rule conjI)
qed

section \<open>Properties of the execution in a worker\<close>

text \<open>In a worker, \<^verbatim>\<open>set_world_ranks\<close> adopts the rank it is given and leaves the model.\<close>

lemma set_world_ranks_global_rank:
  "set_world_ranks g p = Inr p1 \<Longrightarrow> self_is_remote p \<Longrightarrow> self_global_rank p1 = g"
  by (auto simp: set_world_ranks_def Let_def split: option.splits sum.splits)

lemma set_world_ranks_model:
  "set_world_ranks g p = Inr p1 \<Longrightarrow> self_model p1 = self_model p"
  by (auto simp: set_world_ranks_def Let_def split: if_splits option.splits sum.splits)

text \<open>
  C8. Whenever \<^verbatim>\<open>execute_remote\<close> returns, the worker has adopted the global rank it was
  given, and what it returns is a tuple if and only if that rank is 0; for every other
  rank it is \<^verbatim>\<open>None\<close>. It does return when the rank has an entry in the rank assignment
  and the stage does not raise, and for rank 0 the tuple then holds the results of the
  stage, the checkpoint callback's best model path (\<^verbatim>\<open>None\<close> without a callback), the
  state stream of the module's weights and its metrics as arrays.
\<close>

theorem execute_remote_envelope_iff_rank_zero:
  "(\<forall>rv p1. execute_remote run_stage to_state_stream lmodule g p = Inr (rv, p1) \<longrightarrow>
      self_global_rank p1 = g \<and> (rv \<noteq> None \<longleftrightarrow> g = 0)) \<and>
   (self_global_to_local p = Some ranks \<and> py_index ranks g = Inr (Some lr_nr) \<and>
    run_stage lmodule = Inr (rs, m1) \<longrightarrow>
      (\<exists>p1. execute_remote run_stage to_state_stream lmodule g p =
         Inr (if g = 0
              then Some (rs,
                     (case checkpoint_callback (trainer m1) of None \<Rightarrow> None | Some path \<Rightarrow> path),
                     to_state_stream (state_dict m1),
                     apply_to_collection (callback_metrics (trainer m1)) is_tensor to_numpy)
              else None, p1)))"
proof (intro conjI allI impI)
  fix rv p1
  assume ex: "execute_remote run_stage to_state_stream lmodule g p = Inr (rv, p1)"
  let ?p2 = "p\<lparr>self_model := Some lmodule, self_is_remote := True\<rparr>"
  from ex obtain p3 where p3: "worker_setup g ?p2 = Inr p3"
    by (auto simp: execute_remote_def Let_def split: sum.splits)
  then have g: "self_global_rank p3 = g"
    by (simp add: worker_setup_def set_world_ranks_global_rank)
  from ex p3 g show "self_global_rank p1 = g"
    by (auto simp: execute_remote_def Let_def split: sum.splits option.splits)
  from ex p3 g show "rv \<noteq> None \<longleftrightarrow> g = 0"
    by (auto simp: execute_remote_def Let_def split: sum.splits option.splits if_splits)
next
  assume h: "self_global_to_local p = Some ranks \<and> py_index ranks g = Inr (Some lr_nr) \<and>
    run_stage lmodule = Inr (rs, m1)"
  obtain lr nr where "lr_nr = (lr, nr)" by (cases lr_nr)
  with h show "\<exists>p1. execute_remote run_stage to_state_stream lmodule g p =
         Inr (if g = 0
              then Some (rs,
                     (case checkpoint_callback (trainer m1) of None \<Rightarrow> None | Some path \<Rightarrow> path),
                     to_state_stream (state_dict m1),
                     apply_to_collection (callback_metrics (trainer m1)) is_tensor to_numpy)
              else None, p1)"
    by (simp add: execute_remote_def worker_setup_def set_world_ranks_def Let_def)
qed


theorem execute_remote_envelope_iff_rank_zero_witness:
  "(\<exists>rv p1. execute_remote (\<lambda>m. Inr (7::nat, m\<lparr>state_dict := 5\<rparr>)) (\<lambda>s. [s]) example_module 0
        ((init 3 False :: (nat, nat, nat) plugin)\<lparr>self_global_to_local := Some [Some (0, 1), Some (1, 1), Some (0, 2)]\<rparr>) =
        Inr (rv, p1) \<and>
      map_option (\<lambda>(rs, best_path, stream, metrics). (rs, best_path, stream)) rv =
        Some (7, Some [], [5]) \<and>
      self_global_rank p1 = 0) \<and>
   (\<exists>p1. execute_remote (\<lambda>m. Inr (7::nat, m\<lparr>state_dict := 5\<rparr>)) (\<lambda>s. [s]) example_module 1
        ((init 3 False :: (nat, nat, nat) plugin)\<lparr>self_global_to_local := Some [Some (0, 1), Some (1, 1), Some (0, 2)]\<rparr>) =
        Inr (None, p1) \<and>
      self_global_rank p1 = 1)"
proof -
  define run_stage :: "(nat, nat) lightning_module \<Rightarrow> py_error + nat \<times> (nat, nat) lightning_module"
    where "run_stage = (\<lambda>m. Inr (7, m\<lparr>state_dict := 5\<rparr>))"
  define to_state_stream :: "nat \<Rightarrow> nat list" where "to_state_stream = (\<lambda>s. [s])"
  define ranks :: "(nat \<times> nat) option list"
    where "ranks = [Some (0, 1), Some (1, 1), Some (0, 2)]"
  define p :: "(nat, nat, nat) plugin"
    where "p = (init 3 False)\<lparr>self_global_to_local := Some ranks\<rparr>"
  define m1 where "m1 = example_module\<lparr>state_dict := 5\<rparr>"
  have h0: "self_global_to_local p = Some ranks \<and> py_index ranks 0 = Inr (Some (0, 1)) \<and>
    run_stage example_module = Inr (7, m1)"
    by (simp add: p_def ranks_def py_index_def run_stage_def m1_def)
  have h1: "self_global_to_local p = Some ranks \<and> py_index ranks 1 = Inr (Some (1, 1)) \<and>
    run_stage example_module = Inr (7, m1)"
    by (simp add: p_def ranks_def py_index_def run_stage_def m1_def)
  note t0 = execute_remote_envelope_iff_rank_zero[of run_stage to_state_stream example_module
      0 p ranks "(0, 1)" 7 m1]
  note t1 = execute_remote_envelope_iff_rank_zero[of run_stage to_state_stream example_module
      1 p ranks "(1, 1)" 7 m1]
  from t0[THEN conjunct2, THEN mp, OF h0] obtain p0 where
    e0: "execute_remote run_stage to_state_stream example_module 0 p =
      Inr (Some (7,
             (case checkpoint_callback (trainer m1) of None \<Rightarrow> None | Some path \<Rightarrow> path),
             to_state_stream (state_dict m1),
             apply_to_collection (callback_metrics (trainer m1)) is_tensor to_numpy), p0)"
    by auto
  from t0[THEN conjunct1, rule_format, OF e0] have g0: "self_global_rank p0 = 0"
    by simp
  have "map_option (\<lambda>(rs, best_path, stream, metrics). (rs, best_path, stream))
      (Some (7::nat,
             (case checkpoint_callback (trainer m1) of None \<Rightarrow> None | Some path \<Rightarrow> path),
             to_state_stream (state_dict m1),
             apply_to_collection (callback_metrics (trainer m1)) is_tensor to_numpy)) =
      Some (7, Some [], [5])"
    by (simp add: m1_def example_module_def to_state_stream_def)
  with e0 g0 have first: "\<exists>rv p1.
      execute_remote run_stage to_state_stream example_module 0 p = Inr (rv, p1) \<and>
      map_option (\<lambda>(rs, best_path, stream, metrics). (rs, best_path, stream)) rv =
        Some (7, Some [], [5]) \<and>
      self_global_rank p1 = 0"
    by (intro exI conjI)
  from t1[THEN conjunct2, THEN mp, OF h1] obtain p1 where
    e1: "execute_remote run_stage to_state_stream example_module 1 p = Inr (None, p1)"
    by auto
  from t1[THEN conjunct1, rule_format, OF e1] have "self_global_rank p1 = 1"
    by simp
  with e1 have "\<exists>p1. execute_remote run_stage to_state_stream example_module 1 p =
      Inr (None, p1) \<and> self_global_rank p1 = 1"
    by (intro exI conjI)
  with first show ?thesis
    unfolding run_stage_def to_state_stream_def p_def ranks_def by (rule conjI)
qed

section \<open>Properties of the execution on the driver\<close>

text \<open>
  The recovery reads the first entry of the list of returns and nothing else. On a
  non-empty pool of reachable workers, as many as \<^verbatim>\<open>num_workers\<close>, the steps before it
  succeed, and with a tuple in the first entry so does the whole loop, whose value is
  \<^verbatim>\<open>None\<close>.
\<close>

lemma set_env_var_alive [simp]: "alive (set_env_var k v w) = alive w"
  by (simp add: set_env_var_def split: option.splits)

lemma recover_first_only:
  "recover_child_process_weights lss (first # rest) lmodule p =
   recover_child_process_weights lss [first] lmodule p"
  by (simp add: recover_child_process_weights_def)

lemma recover_none:
  "recover_child_process_weights lss (None # rest) lmodule p = Inl TypeError"
  by (simp add: recover_child_process_weights_def)

lemma recover_empty:
  "recover_child_process_weights lss [] lmodule p = Inl IndexError"
  by (simp add: recover_child_process_weights_def)

lemma recover_some:
  "recover_child_process_weights lss (Some (rs, bp, ss, ms) # rest) (Some m) p =
     Inr (p\<lparr>self_results := Some rs,
            self_model := Some (m\<lparr>state_dict := lss ss (self_use_gpu p),
              trainer := (case checkpoint_callback (trainer m) of
                            None \<Rightarrow> trainer m
                          | Some x \<Rightarrow> (trainer m)\<lparr>checkpoint_callback := Some bp\<rparr>)
                \<lparr>callback_metrics :=
                   callback_metrics (trainer m) ++ apply_to_collection ms is_ndarray to_tensor\<rparr>\<rparr>)\<rparr>)"
  by (simp add: recover_child_process_weights_def Let_def split: option.splits)

lemma execution_loop_first_only:
  "execution_loop lss (Inr (first # rest)) t env p = execution_loop lss (Inr [first]) t env p"
  by (simp add: execution_loop_def Let_def recover_first_only[of lss first rest]
      split: sum.splits prod.splits)

lemma execution_loop_none:
  "isl (execution_loop lss (Inr (None # rest)) t env p)"
  by (simp add: execution_loop_def recover_none Let_def split: sum.splits prod.splits)

lemma execution_loop_empty:
  "isl (execution_loop lss (Inr []) t env p)"
  by (simp add: execution_loop_def recover_empty Let_def split: sum.splits prod.splits)

lemma execution_loop_alive:
  assumes "self_workers p \<noteq> []"
    and "\<forall>w\<in>set (self_workers p). alive w"
    and "self_num_workers p = length (self_workers p)"
  shows "\<exists>env1 p3. self_use_gpu p3 = self_use_gpu p \<and>
           (\<forall>worker_returns. execution_loop lss (Inr worker_returns) t env p =
              (case recover_child_process_weights lss worker_returns (self_model p) p3 of
                 Inl e \<Rightarrow> Inl e
               | Inr p4 \<Rightarrow> Inr (None, env1, p4)))"
proof -
  obtain env1 p1 where s: "setup_env_vars env p = Inr (env1, p1)"
    and p1: "p1 = p\<lparr>self_workers := map (\<lambda>w.
             set_env_var ''MASTER_PORT'' (Some (str_nat (free_port (self_workers p ! 0))))
               (set_env_var ''MASTER_ADDR'' (Some (node_ip (self_workers p ! 0)))
                 (set_env_var ''PL_TORCH_DISTRIBUTED_BACKEND''
                    (env ''PL_TORCH_DISTRIBUTED_BACKEND'')
                    (set_env_var ''PL_GLOBAL_SEED'' (env ''PL_GLOBAL_SEED'') w))))
            (self_workers p)\<rparr>"
    using setup_env_vars_alive[OF assms(1,2), of env] by simp
  have "self_num_workers p1 = length (self_workers p1)" "\<forall>w\<in>set (self_workers p1). alive w"
    using assms(2,3) by (simp_all add: p1)
  then obtain ranks where r: "get_local_ranks p1 = Inr ranks"
    using get_local_ranks_alive by blast
  have m: "self_model p1 = self_model p" "self_use_gpu p1 = self_use_gpu p"
    "length (self_workers p1) = self_num_workers p1"
    using assms(3) by (simp_all add: p1)
  let ?p3 = "p1\<lparr>self_global_to_local := Some ranks, self_model := None\<rparr>"
  have "self_use_gpu ?p3 = self_use_gpu p"
    by (simp add: m)
  moreover have "execution_loop lss (Inr worker_returns) t env p =
      (case recover_child_process_weights lss worker_returns (self_model p) ?p3 of
         Inl e \<Rightarrow> Inl e
       | Inr p4 \<Rightarrow> Inr (None, env1, p4))" for worker_returns
    by (simp add: execution_loop_def s r m Let_def)
  ultimately show ?thesis by blast
qed

lemma execution_loop_success:
  assumes "self_workers p \<noteq> []"
    and "\<forall>w\<in>set (self_workers p). alive w"
    and "self_num_workers p = length (self_workers p)"
    and "self_model p = Some m"
  shows "\<exists>env1 p1. execution_loop lss (Inr (Some (rs, bp, ss, ms) # rest)) t env p =
             Inr (None, env1, p1) \<and>
           self_results p1 = Some rs \<and>
           map_option state_dict (self_model p1) = Some (lss ss (self_use_gpu p))"
proof -
  from execution_loop_alive[OF assms(1-3), of lss t env] obtain env1 p3 where
    gpu: "self_use_gpu p3 = self_use_gpu p" and
    loop: "\<And>worker_returns. execution_loop lss (Inr worker_returns) t env p =
              (case recover_child_process_weights lss worker_returns (self_model p) p3 of
                 Inl e \<Rightarrow> Inl e
               | Inr p4 \<Rightarrow> Inr (None, env1, p4))"
    by blast
  show ?thesis
    by (simp add: loop assms(4) recover_some gpu)
qed

lemma reset_optimizers_keeps [simp]:
  "self_results (reset_optimizers p) = self_results p"
  "map_option state_dict (self_model (reset_optimizers p)) = map_option state_dict (self_model p)"
  by (simp_all add: reset_optimizers_def split: option.splits)

text \<open>
  C2. A run where the workers of global rank 0 and 1 both return a tuple is not
  rejected: the execution loop completes without an error.
\<close>

theorem execution_loop_two_envelopes_counterexample:
  "\<not> isl (execution_loop (\<lambda>stream gpu. stream)
      (Inr [Some (7::nat, None, 5::nat, Map.empty), Some (8, None, 6, Map.empty)])
      True Map.empty ((pool_on [''n1'', ''n2''])\<lparr>self_model := Some example_module\<rparr>))"
proof -
  define p where "p = (pool_on [''n1'', ''n2''])\<lparr>self_model := Some example_module\<rparr>"
  have "self_workers p \<noteq> []" "\<forall>w\<in>set (self_workers p). alive w"
    "self_num_workers p = length (self_workers p)" "self_model p = Some example_module"
    by (simp_all add: p_def pool_on_def init_def worker_on_def)
  from execution_loop_success[OF this] show ?thesis
    unfolding p_def by (metis sum.disc(2))
qed

text \<open>
  C2, as amended. After all futures have resolved, the loop takes the entry of global
  rank 0 of the returns and looks at no other: the entries of the other ranks make no
  difference to its outcome. Without any tuple among the returns, and whenever the entry
  of rank 0 is \<^verbatim>\<open>None\<close>, it ends in an error and returns no result; on a non-empty pool of
  reachable workers, as many as \<^verbatim>\<open>num_workers\<close>, the error is the \<^verbatim>\<open>IndexError\<close> of
  \<^verbatim>\<open>results[0]\<close> for no returns at all and the \<^verbatim>\<open>TypeError\<close> of unpacking \<^verbatim>\<open>None\<close>
  otherwise. Tuples from other ranks are ignored, not rejected: with a tuple from rank
  0, and a model on the driver, the loop on such a pool completes.
\<close>

theorem execution_loop_reads_rank_zero_only:
  "execution_loop lss (Inr (first # rest)) t env p =
     execution_loop lss (Inr [first]) t env p \<and>
   ((\<forall>r\<in>set worker_returns. r = None) \<longrightarrow>
      isl (execution_loop lss (Inr worker_returns) t env p)) \<and>
   isl (execution_loop lss (Inr (None # rest)) t env p) \<and>
   (self_workers p \<noteq> [] \<and> (\<forall>w\<in>set (self_workers p). alive w) \<and>
    self_num_workers p = length (self_workers p) \<longrightarrow>
      execution_loop lss (Inr []) t env p = Inl IndexError \<and>
      execution_loop lss (Inr (None # rest)) t env p = Inl TypeError \<and>
      (self_model p \<noteq> None \<longrightarrow>
         \<not> isl (execution_loop lss (Inr (Some envelope # rest)) t env p)))"
proof (intro conjI impI)
  show "execution_loop lss (Inr (first # rest)) t env p =
     execution_loop lss (Inr [first]) t env p"
    by (rule execution_loop_first_only)
next
  assume "\<forall>r\<in>set worker_returns. r = None"
  then show "isl (execution_loop lss (Inr worker_returns) t env p)"
    by (cases worker_returns) (simp_all add: execution_loop_empty execution_loop_none)
next
  show "isl (execution_loop lss (Inr (None # rest)) t env p)"
    by (rule execution_loop_none)
next
  assume h: "self_workers p \<noteq> [] \<and> (\<forall>w\<in>set (self_workers p). alive w) \<and>
    self_num_workers p = length (self_workers p)"
  then have a: "self_workers p \<noteq> []" "\<forall>w\<in>set (self_workers p). alive w"
    "self_num_workers p = length (self_workers p)" by simp_all
  from execution_loop_alive[OF a, of lss t env] obtain env1 p3 where
    loop: "\<And>worker_returns. execution_loop lss (Inr worker_returns) t env p =
              (case recover_child_process_weights lss worker_returns (self_model p) p3 of
                 Inl e \<Rightarrow> Inl e
               | Inr p4 \<Rightarrow> Inr (None, env1, p4))"
    by blast
  show "execution_loop lss (Inr []) t env p = Inl IndexError"
    by (simp add: loop recover_empty)
  show "execution_loop lss (Inr (None # rest)) t env p = Inl TypeError"
    by (simp add: loop recover_none)
  assume "self_model p \<noteq> None"
  then obtain m where m: "self_model p = Some m" by auto
  obtain rs bp ss ms where e: "envelope = (rs, bp, ss, ms)" by (cases envelope)
  from execution_loop_success[OF a m, of lss rs bp ss ms rest t env]
  show "\<not> isl (execution_loop lss (Inr (Some envelope # rest)) t env p)"
    unfolding e by (metis sum.disc(2))
qed

theorem execution_loop_reads_rank_zero_only_witness:
  "execution_loop (\<lambda>stream gpu. stream)
      (Inr [Some (7::nat, None, 5::nat, Map.empty), Some (8, None, 6, Map.empty)])
      True Map.empty ((pool_on [''n1'', ''n2''])\<lparr>self_model := Some example_module\<rparr>) =
   execution_loop (\<lambda>stream gpu. stream)
      (Inr [Some (7::nat, None, 5::nat, Map.empty)])
      True Map.empty ((pool_on [''n1'', ''n2''])\<lparr>self_model := Some example_module\<rparr>) \<and>
   isl (execution_loop (\<lambda>stream gpu. stream)
      (Inr [None, None :: (nat, nat, nat) envelope option])
      True Map.empty ((pool_on [''n1'', ''n2''])\<lparr>self_model := Some example_module\<rparr>)) \<and>
   execution_loop (\<lambda>stream gpu. stream)
      (Inr ([] :: (nat, nat, nat) envelope option list))
      True Map.empty ((pool_on [''n1'', ''n2''])\<lparr>self_model := Some example_module\<rparr>) =
     Inl IndexError \<and>
   execution_loop (\<lambda>stream gpu. stream)
      (Inr [None, Some (8::nat, None, 6::nat, Map.empty)])
      True Map.empty ((pool_on [''n1'', ''n2''])\<lparr>self_model := Some example_module\<rparr>) =
     Inl TypeError \<and>
   \<not> isl (execution_loop (\<lambda>stream gpu. stream)
      (Inr [Some (7::nat, None, 5::nat, Map.empty), None])
      True Map.empty ((pool_on [''n1'', ''n2''])\<lparr>self_model := Some example_module\<rparr>))"
proof -
  define p where "p = (pool_on [''n1'', ''n2''])\<lparr>self_model := Some example_module\<rparr>"
  define lss :: "nat \<Rightarrow> bool \<Rightarrow> nat" where "lss = (\<lambda>stream gpu. stream)"
  define e0 :: "(nat, nat, nat) envelope" where "e0 = (7, None, 5, Map.empty)"
  define e1 :: "(nat, nat, nat) envelope" where "e1 = (8, None, 6, Map.empty)"
  have h: "self_workers p \<noteq> [] \<and> (\<forall>w\<in>set (self_workers p). alive w) \<and>
    self_num_workers p = length (self_workers p)"
    by (simp add: p_def pool_on_def init_def worker_on_def)
  have m: "self_model p \<noteq> None"
    by (simp add: p_def)
  have n: "\<forall>r\<in>set [None, None :: (nat, nat, nat) envelope option]. r = None"
    by simp
  note t1 = execution_loop_reads_rank_zero_only[of lss "Some e0" "[Some e1]" True Map.empty p
      "[None, None]" e0]
  note t2 = execution_loop_reads_rank_zero_only[of lss None "[Some e1]" True Map.empty p
      "[]" e0]
  note t3 = execution_loop_reads_rank_zero_only[of lss None "[None]" True Map.empty p
      "[]" e0]
  have "execution_loop lss (Inr [Some e0, Some e1]) True Map.empty p =
      execution_loop lss (Inr [Some e0]) True Map.empty p"
    using t1[THEN conjunct1] .
  moreover have "isl (execution_loop lss (Inr [None, None]) True Map.empty p)"
    using t1[THEN conjunct2, THEN conjunct1, THEN mp, OF n] .
  moreover have "execution_loop lss (Inr []) True Map.empty p = Inl IndexError"
    using t2[THEN conjunct2, THEN conjunct2, THEN conjunct2, THEN mp, OF h, THEN conjunct1] .
  moreover have "execution_loop lss (Inr [None, Some e1]) True Map.empty p = Inl TypeError"
    using t2[THEN conjunct2, THEN conjunct2, THEN conjunct2, THEN mp, OF h, THEN conjunct2,
        THEN conjunct1] .
  moreover have "\<not> isl (execution_loop lss (Inr [Some e0, None]) True Map.empty p)"
    using t3[THEN conjunct2, THEN conjunct2, THEN conjunct2, THEN mp, OF h, THEN conjunct2,
        THEN conjunct2, THEN mp, OF m] .
  ultimately show ?thesis
    unfolding p_def lss_def e0_def e1_def by (intro conjI)
qed

text \<open>
  C4. On a successful run with two workers, where rank 0 returned the result 7 and the
  state stream 5, \<^verbatim>\<open>start_training\<close>, \<^verbatim>\<open>start_evaluating\<close> and \<^verbatim>\<open>start_predicting\<close> all
  return \<^verbatim>\<open>None\<close>: \<^verbatim>\<open>execution_loop\<close> stores the result in \<^verbatim>\<open>self._results\<close> and loads the
  decoded state into the model, and then ends without a \<^verbatim>\<open>return\<close> statement.
\<close>

theorem start_training_returns_none:
  "(\<exists>env1 p1. start_training (\<lambda>stream gpu. stream)
        (Inr [Some (7::nat, Some ''best.ckpt'', 5::nat, Map.empty), None]) Map.empty
        ((pool_on [''n1'', ''n1''])\<lparr>self_model := Some example_module\<rparr>) = Inr (None, env1, p1) \<and>
      self_results p1 = Some 7 \<and> map_option state_dict (self_model p1) = Some 5) \<and>
   (\<exists>env1 p1. start_evaluating (\<lambda>stream gpu. stream)
        (Inr [Some (7::nat, Some ''best.ckpt'', 5::nat, Map.empty), None]) Map.empty
        ((pool_on [''n1'', ''n1''])\<lparr>self_model := Some example_module\<rparr>) = Inr (None, env1, p1) \<and>
      self_results p1 = Some 7 \<and> map_option state_dict (self_model p1) = Some 5) \<and>
   (\<exists>env1 p1. start_predicting (\<lambda>stream gpu. stream)
        (Inr [Some (7::nat, Some ''best.ckpt'', 5::nat, Map.empty), None]) Map.empty
        ((pool_on [''n1'', ''n1''])\<lparr>self_model := Some example_module\<rparr>) = Inr (None, env1, p1) \<and>
      self_results p1 = Some 7 \<and> map_option state_dict (self_model p1) = Some 5)"
proof -
  define p where "p = (pool_on [''n1'', ''n1''])\<lparr>self_model := Some example_module\<rparr>"
  define lss :: "nat \<Rightarrow> bool \<Rightarrow> nat" where "lss = (\<lambda>stream gpu. stream)"
  define pr :: "py_error + (nat, nat, nat) envelope option list"
    where "pr = Inr [Some (7, Some ''best.ckpt'', 5, Map.empty), None]"
  have h: "self_workers p \<noteq> []" "\<forall>w\<in>set (self_workers p). alive w"
    "self_num_workers p = length (self_workers p)" "self_model p = Some example_module"
    by (simp_all add: p_def pool_on_def init_def worker_on_def)
  have loop: "\<exists>env1 p1. execution_loop lss pr t Map.empty p = Inr (None, env1, p1) \<and>
      self_results p1 = Some 7 \<and> map_option state_dict (self_model p1) = Some 5" for t
    using execution_loop_success[OF h, of lss 7 "Some ''best.ckpt''" 5 Map.empty "[None]" t
        Map.empty]
    by (simp add: pr_def lss_def)
  from loop[of True] obtain env1 p1 where
    l: "execution_loop lss pr True Map.empty p = Inr (None, env1, p1)"
      "self_results p1 = Some 7" "map_option state_dict (self_model p1) = Some 5"
    by (elim exE conjE)
  then have "start_training lss pr Map.empty p = Inr (None, env1, reset_optimizers p1) \<and>
      self_results (reset_optimizers p1) = Some 7 \<and>
      map_option state_dict (self_model (reset_optimizers p1)) = Some 5"
    by (simp add: start_training_def)
  then have "\<exists>env1 p1. start_training lss pr Map.empty p = Inr (None, env1, p1) \<and>
      self_results p1 = Some 7 \<and> map_option state_dict (self_model p1) = Some 5"
    by (intro exI)
  moreover have "\<exists>env1 p1. start_evaluating lss pr Map.empty p = Inr (None, env1, p1) \<and>
      self_results p1 = Some 7 \<and> map_option state_dict (self_model p1) = Some 5"
    using loop[of False] by (auto simp: start_evaluating_def)
  moreover have "\<exists>env1 p1. start_predicting lss pr Map.empty p = Inr (None, env1, p1) \<and>
      self_results p1 = Some 7 \<and> map_option state_dict (self_model p1) = Some 5"
    using loop[of False] by (auto simp: start_predicting_def)
  ultimately show ?thesis
    unfolding p_def lss_def pr_def by (intro conjI)
qed

end
